theory Spec2Isabelle
  imports Main "HOL-Library.Multiset"
begin

section \<open>Request and response data\<close>

text \<open>
  Request bodies and response bodies are JSON values. A Python dict is an association
  list in insertion order; \<open>d[k] = v\<close> overwrites in place or appends.
\<close>

datatype jval =
    JNull
  | JBool bool
  | JInt int
  | JStr string
  | JList "jval list"
  | JObj "(string \<times> jval) list"

type_synonym dict = "(string \<times> jval) list"

definition dict_get :: "dict \<Rightarrow> string \<Rightarrow> jval option" where
  "dict_get d k = map_of d k"

fun dict_set :: "dict \<Rightarrow> string \<Rightarrow> jval \<Rightarrow> dict" where
  "dict_set [] k v = [(k, v)]"
| "dict_set ((k', v') # d) k v = (if k' = k then (k, v) # d else (k', v') # dict_set d k v)"

text \<open>\<open>{**a, **b}\<close>: the keys of \<open>b\<close> override those of \<open>a\<close>.\<close>

fun dict_merge :: "dict \<Rightarrow> dict \<Rightarrow> dict" where
  "dict_merge a [] = a"
| "dict_merge a ((k, v) # b) = dict_merge (dict_set a k v) b"

text \<open>
  Text is a list of characters, one \<open>char\<close> per code point, so the code points are those
  below 256. Python's \<open>str\<close> of an integer is its decimal numeral.
\<close>

definition digit_char :: "nat \<Rightarrow> char" where
  "digit_char n = ''0123456789'' ! (n mod 10)"

function str_nat :: "nat \<Rightarrow> string" where
  "str_nat n = (if n < 10 then [digit_char n] else str_nat (n div 10) @ [digit_char n])"
  by pat_completeness auto
termination
  by (relation "measure id") auto

definition str_int :: "int \<Rightarrow> string" where
  "str_int i = (if i < 0 then CHR ''-'' # str_nat (nat (- i)) else str_nat (nat i))"

section \<open>Exceptions and the exception handler (views.py, custom_exception_handler)\<close>

text \<open>
  The exceptions the code can raise. \<open>APIException\<close> is the framework's base class,
  whose \<open>status_code\<close> is 500 whatever \<open>code=\<close> argument it is given (that argument
  is the error's code string, not the HTTP status).
\<close>

datatype exc =
    APIException string
  | ValidationError dict
  | NotAuthenticated
  | PermissionDenied
  | Http404
  | IntegrityError
  | AttributeError
  | KeyError
  | TypeError
  | RelatedObjectDoesNotExist

datatype outcome =
    Response nat jval
  | Raised exc

definition isinstance_APIException :: "exc \<Rightarrow> bool" where
  "isinstance_APIException e =
     (case e of APIException _ \<Rightarrow> True | ValidationError _ \<Rightarrow> True
      | NotAuthenticated \<Rightarrow> True | PermissionDenied \<Rightarrow> True | _ \<Rightarrow> False)"

text \<open>
  The framework's default handler: an API exception becomes a response with the
  exception's status and detail (a dict detail is the body itself), \<open>Http404\<close> is first
  turned into the API exception \<open>NotFound\<close>, anything else is not handled.
\<close>

definition drf_exception_handler :: "exc \<Rightarrow> (nat \<times> dict) option" where
  "drf_exception_handler e =
     (case e of
        APIException detail \<Rightarrow> Some (500, [(''detail'', JStr detail)])
      | ValidationError detail \<Rightarrow> Some (400, detail)
      | NotAuthenticated \<Rightarrow>
          Some (401, [(''detail'', JStr ''Authentication credentials were not provided.'')])
      | PermissionDenied \<Rightarrow>
          Some (403, [(''detail'', JStr ''You do not have permission to perform this action.'')])
      | Http404 \<Rightarrow> Some (404, [(''detail'', JStr ''Not found.'')])
      | _ \<Rightarrow> None)"

definition custom_exception_handler :: "exc \<Rightarrow> (nat \<times> dict) option" where
  "custom_exception_handler e =
     (case drf_exception_handler e of
        Some (status_code, data) \<Rightarrow>
          if isinstance_APIException e
          then Some (status_code, dict_set data ''status_code'' (JInt (int status_code)))
          else Some (status_code,
                 [(''detail'', JStr ''An unexpected error occurred.''),
                  (''status_code'', JInt (int status_code))])
      | None \<Rightarrow>
          if e = IntegrityError
          then Some (400,
                 [(''detail'', JStr ''A database integrity error occurred. This might be due to duplicate entry or related data issues.''),
                  (''status_code'', JInt 400)])
          else None)"

text \<open>
  What the framework does with the result of a view body: a returned response goes out,
  a raised exception goes through the handler, and an exception the handler declines
  propagates out of the view.
\<close>

definition dispatch :: "exc + (nat \<times> jval) \<Rightarrow> outcome" where
  "dispatch r =
     (case r of
        Inr (status_code, data) \<Rightarrow> Response status_code data
      | Inl e \<Rightarrow>
          (case custom_exception_handler e of
             Some (status_code, data) \<Rightarrow> Response status_code (JObj data)
           | None \<Rightarrow> Raised e))"

section \<open>Data model (models.py)\<close>

record User =
  u_id :: nat
  username :: string
  email :: string
  password :: string
  is_superuser :: bool

record Profile =
  user_id :: nat
  role :: string

record Patient =
  p_id :: nat
  name :: string
  age :: int
  gender :: string
  address :: string
  created_by :: nat
  created_at :: nat

record MedicalRecord =
  r_id :: nat
  patient :: nat
  symptoms :: string
  diagnosis :: string
  treatment :: string
  r_created_at :: nat

definition USER_ROLES :: "(string \<times> string) list" where
  "USER_ROLES = [(''doctor'', ''Doctor''), (''admin'', ''Admin'')]"

definition GENDER_CHOICES :: "(string \<times> string) list" where
  "GENDER_CHOICES = [(''Male'', ''Male''), (''Female'', ''Female''), (''Other'', ''Other'')]"

text \<open>
  The database: one list of rows per table, in insertion order. A token row is the
  user's id and the key.
\<close>

record db =
  users :: "User list"
  profiles :: "Profile list"
  patients :: "Patient list"
  medical_records :: "MedicalRecord list"
  tokens :: "(nat \<times> string) list"

definition empty_db :: db where
  "empty_db = \<lparr>users = [], profiles = [], patients = [], medical_records = [], tokens = []\<rparr>"

text \<open>An auto-increment primary key: larger than every key in use.\<close>

definition fresh_id :: "nat list \<Rightarrow> nat" where
  "fresh_id ids = Suc (fold max ids 0)"

subsection \<open>Profiles and the post-save hooks\<close>

definition profile_of :: "db \<Rightarrow> nat \<Rightarrow> Profile option" where
  "profile_of d uid = find (\<lambda>p. user_id p = uid) (profiles d)"

text \<open>\<open>user.profile\<close>: raises when the user has no profile row.\<close>

definition get_profile :: "db \<Rightarrow> User \<Rightarrow> exc + Profile" where
  "get_profile d u =
     (case profile_of d (u_id u) of None \<Rightarrow> Inl RelatedObjectDoesNotExist | Some p \<Rightarrow> Inr p)"

text \<open>\<open>hasattr(user, 'profile')\<close>: the attribute error of a missing profile is swallowed.\<close>

definition hasattr_profile :: "db \<Rightarrow> User \<Rightarrow> bool" where
  "hasattr_profile d u = (profile_of d (u_id u) \<noteq> None)"

text \<open>
  \<open>Profile.objects.create(user=..., role=...)\<close>. The one-to-one field puts a unique
  constraint on the user column: a second profile for a user is refused by the database.
\<close>

definition Profile_objects_create :: "db \<Rightarrow> nat \<Rightarrow> string \<Rightarrow> db \<times> (exc + Profile)" where
  "Profile_objects_create d uid r =
     (if profile_of d uid \<noteq> None then (d, Inl IntegrityError)
      else let p = \<lparr>user_id = uid, role = r\<rparr>
           in (d\<lparr>profiles := profiles d @ [p]\<rparr>, Inr p))"

definition create_user_profile :: "db \<Rightarrow> User \<Rightarrow> bool \<Rightarrow> db \<times> (exc + unit)" where
  "create_user_profile d instance created =
     (if created
      then (case Profile_objects_create d (u_id instance) ''doctor'' of
              (d', Inl e) \<Rightarrow> (d', Inl e)
            | (d', Inr _) \<Rightarrow> (d', Inr ()))
      else (d, Inr ()))"

text \<open>\<open>instance.profile.save()\<close> writes the row back unchanged, or raises without one.\<close>

definition save_user_profile :: "db \<Rightarrow> User \<Rightarrow> db \<times> (exc + unit)" where
  "save_user_profile d instance =
     (case get_profile d instance of Inl e \<Rightarrow> (d, Inl e) | Inr _ \<Rightarrow> (d, Inr ()))"

text \<open>The receivers of \<open>post_save\<close> for \<open>User\<close>, in the order they are connected.\<close>

definition post_save_User :: "db \<Rightarrow> User \<Rightarrow> bool \<Rightarrow> db \<times> (exc + unit)" where
  "post_save_User d instance created =
     (case create_user_profile d instance created of
        (d', Inl e) \<Rightarrow> (d', Inl e)
      | (d', Inr _) \<Rightarrow> save_user_profile d' instance)"

subsection \<open>Users\<close>

definition get_user_by_username :: "db \<Rightarrow> string \<Rightarrow> User option" where
  "get_user_by_username d n = find (\<lambda>u. username u = n) (users d)"

text \<open>
  Saving a new user: the username is unique in the table; the row is inserted and the
  \<open>post_save\<close> receivers run with \<open>created = True\<close>. Both \<open>create_user\<close> and
  \<open>create_superuser\<close> go through it. The password is stored as the framework hashes it,
  which is opaque here: the stored value is compared for equality.
\<close>

definition User_save_new :: "db \<Rightarrow> string \<Rightarrow> string \<Rightarrow> string \<Rightarrow> bool \<Rightarrow> db \<times> (exc + User)" where
  "User_save_new d un em pw su =
     (if get_user_by_username d un \<noteq> None then (d, Inl IntegrityError)
      else let u = \<lparr>u_id = fresh_id (map u_id (users d)), username = un, email = em,
                     password = pw, is_superuser = su\<rparr>;
               d1 = d\<lparr>users := users d @ [u]\<rparr>
           in (case post_save_User d1 u True of
                 (d2, Inl e) \<Rightarrow> (d2, Inl e)
               | (d2, Inr _) \<Rightarrow> (d2, Inr u)))"

definition create_user :: "db \<Rightarrow> string \<Rightarrow> string \<Rightarrow> string \<Rightarrow> db \<times> (exc + User)" where
  "create_user d un em pw = User_save_new d un em pw False"

definition create_superuser :: "db \<Rightarrow> string \<Rightarrow> string \<Rightarrow> string \<Rightarrow> db \<times> (exc + User)" where
  "create_superuser d un em pw = User_save_new d un em pw True"

subsection \<open>Tokens\<close>

text \<open>
  \<open>Token.objects.get_or_create(user=user)\<close>; the key of a new token is random, so it is
  an input here.
\<close>

definition Token_get_or_create :: "db \<Rightarrow> User \<Rightarrow> string \<Rightarrow> db \<times> string" where
  "Token_get_or_create d u fresh_key =
     (case map_of (tokens d) (u_id u) of
        Some key \<Rightarrow> (d, key)
      | None \<Rightarrow> (d\<lparr>tokens := tokens d @ [(u_id u, fresh_key)]\<rparr>, fresh_key))"

section \<open>Login (views.py, login_view)\<close>

text \<open>
  \<open>request.data.get(...)\<close> hands the raw JSON value to the framework's \<open>authenticate\<close>:
  \<^item> a missing or null username or password gives no user;
  \<^item> the user is looked up by the username as text, and a password is compared as text
    (Python's \<open>str\<close> of a value that is not a string; for a list or an object that
    rendering is the parameter \<open>repr\<close>);
  \<^item> when no user has the username, the password is hashed once all the same, and hashing
    a password that is not a string raises \<open>TypeError\<close>.
  The stored password stands for its hash: matching is equality of the texts.
\<close>

definition py_str :: "(jval \<Rightarrow> string) \<Rightarrow> jval \<Rightarrow> string" where
  "py_str repr v =
     (case v of
        JStr s \<Rightarrow> s
      | JInt i \<Rightarrow> str_int i
      | JBool b \<Rightarrow> (if b then ''True'' else ''False'')
      | _ \<Rightarrow> repr v)"

definition is_None :: "jval option \<Rightarrow> bool" where
  "is_None v = (case v of None \<Rightarrow> True | Some JNull \<Rightarrow> True | Some _ \<Rightarrow> False)"

definition is_str :: "jval option \<Rightarrow> bool" where
  "is_str v = (case v of Some (JStr _) \<Rightarrow> True | _ \<Rightarrow> False)"

definition authenticate ::
  "(jval \<Rightarrow> string) \<Rightarrow> db \<Rightarrow> jval option \<Rightarrow> jval option \<Rightarrow> exc + User option" where
  "authenticate repr d un pw =
     (if is_None un \<or> is_None pw then Inr None
      else (case (un, pw) of
              (Some n, Some w) \<Rightarrow>
                (case get_user_by_username d (py_str repr n) of
                   None \<Rightarrow> if is_str pw then Inr None else Inl TypeError
                 | Some u \<Rightarrow> if password u = py_str repr w then Inr (Some u) else Inr None)
            | _ \<Rightarrow> Inr None))"

text \<open>
  \<open>login(request, user)\<close> records the login on the user row and saves it, which runs the
  \<open>post_save\<close> receivers with \<open>created = False\<close>.
\<close>

definition login_view_body ::
  "(jval \<Rightarrow> string) \<Rightarrow> db \<Rightarrow> dict \<Rightarrow> string \<Rightarrow> db \<times> (exc + (nat \<times> jval))" where
  "login_view_body repr d data fresh_key =
     (case authenticate repr d (dict_get data ''username'') (dict_get data ''password'') of
        Inl e \<Rightarrow> (d, Inl e)
      | Inr (Some user) \<Rightarrow>
          (case post_save_User d user False of
             (d1, Inl e) \<Rightarrow> (d1, Inl e)
           | (d1, Inr _) \<Rightarrow>
               (case Token_get_or_create d1 user fresh_key of
                  (d2, key) \<Rightarrow>
                    (case get_profile d2 user of
                       Inl e \<Rightarrow> (d2, Inl e)
                     | Inr p \<Rightarrow>
                         (d2, Inr (200, JObj
                            [(''message'', JStr ''Login successful''),
                             (''token'', JStr key),
                             (''user_id'', JInt (int (u_id user))),
                             (''username'', JStr (username user)),
                             (''role'', JStr (role p))])))))
      | Inr None \<Rightarrow>
          (d, Inr (401, JObj [(''detail'', JStr ''Invalid credentials''),
                              (''status_code'', JInt 401)])))"

definition login_view :: "(jval \<Rightarrow> string) \<Rightarrow> db \<Rightarrow> dict \<Rightarrow> string \<Rightarrow> db \<times> outcome" where
  "login_view repr d data fresh_key =
     (case login_view_body repr d data fresh_key of (d', r) \<Rightarrow> (d', dispatch r))"

section \<open>Permissions (permissions.py)\<close>

text \<open>
  The acting user of a request is \<open>Some user\<close> when the token resolved to a user and
  \<open>None\<close> for the anonymous user. A permission returns a boolean or raises.
\<close>

definition IsAuthenticated_has_permission :: "User option \<Rightarrow> exc + bool" where
  "IsAuthenticated_has_permission ru = Inr (ru \<noteq> None)"

definition IsDoctor_has_permission :: "db \<Rightarrow> User option \<Rightarrow> exc + bool" where
  "IsDoctor_has_permission d ru =
     (case ru of
        None \<Rightarrow> Inr False
      | Some u \<Rightarrow>
          (case get_profile d u of Inl e \<Rightarrow> Inl e | Inr p \<Rightarrow> Inr (role p = ''doctor'')))"

definition IsAdmin_has_permission :: "db \<Rightarrow> User option \<Rightarrow> exc + bool" where
  "IsAdmin_has_permission d ru =
     (case ru of
        None \<Rightarrow> Inr False
      | Some u \<Rightarrow>
          if is_superuser u then Inr True
          else (case get_profile d u of Inl e \<Rightarrow> Inl e | Inr p \<Rightarrow> Inr (role p = ''admin'')))"

text \<open>\<open>IsDoctor | IsAdmin\<close>: the second operand is evaluated only when the first is false.\<close>

definition OR_has_permission :: "exc + bool \<Rightarrow> exc + bool \<Rightarrow> exc + bool" where
  "OR_has_permission op1 op2 =
     (case op1 of Inl e \<Rightarrow> Inl e | Inr True \<Rightarrow> Inr True | Inr False \<Rightarrow> op2)"

text \<open>The object handed to an object-level check is a row of one of the two models.\<close>

datatype model_obj =
    PatientObj Patient
  | MedicalRecordObj MedicalRecord

definition IsOwnerOrAdmin_has_object_permission :: "db \<Rightarrow> User option \<Rightarrow> model_obj \<Rightarrow> exc + bool" where
  "IsOwnerOrAdmin_has_object_permission d ru obj =
     (case ru of
        None \<Rightarrow> Inl AttributeError
      | Some u \<Rightarrow>
          if is_superuser u then Inr True
          else (case get_profile d u of
                  Inl e \<Rightarrow> Inl e
                | Inr p \<Rightarrow>
                    if role p = ''admin'' then Inr True
                    else (case obj of
                            PatientObj pat \<Rightarrow> Inr (created_by pat = u_id u)
                          | MedicalRecordObj _ \<Rightarrow> Inl AttributeError)))"

text \<open>
  \<open>obj.patient.created_by\<close>: a medical record has a patient, a patient row has no
  attribute \<open>patient\<close>.
\<close>

definition IsPatientRecordOwnerOrAdmin_has_object_permission ::
  "db \<Rightarrow> User option \<Rightarrow> model_obj \<Rightarrow> exc + bool" where
  "IsPatientRecordOwnerOrAdmin_has_object_permission d ru obj =
     (case ru of
        None \<Rightarrow> Inl AttributeError
      | Some u \<Rightarrow>
          if is_superuser u then Inr True
          else (case get_profile d u of
                  Inl e \<Rightarrow> Inl e
                | Inr p \<Rightarrow>
                    if role p = ''admin'' then Inr True
                    else (case obj of
                            MedicalRecordObj r \<Rightarrow>
                              (case find (\<lambda>pat. p_id pat = patient r) (patients d) of
                                 None \<Rightarrow> Inl RelatedObjectDoesNotExist
                               | Some pat \<Rightarrow> Inr (created_by pat = u_id u))
                          | PatientObj _ \<Rightarrow> Inl AttributeError)))"

definition IsPatientRecordOwnerOrAdmin_has_permission :: "db \<Rightarrow> User option \<Rightarrow> exc + bool" where
  "IsPatientRecordOwnerOrAdmin_has_permission d ru =
     (case ru of
        None \<Rightarrow> Inl AttributeError
      | Some u \<Rightarrow>
          if is_superuser u then Inr True
          else (case get_profile d u of
                  Inl e \<Rightarrow> Inl e
                | Inr p \<Rightarrow> if role p = ''admin'' then Inr True else Inr (role p = ''doctor'')))"

text \<open>
  The framework's checks: the permissions are asked in order; the first that raises
  ends the request with its exception, the first that answers false ends it with
  \<open>NotAuthenticated\<close> for the anonymous user and \<open>PermissionDenied\<close> otherwise.
\<close>

definition permission_denied :: "User option \<Rightarrow> exc" where
  "permission_denied ru = (case ru of None \<Rightarrow> NotAuthenticated | Some _ \<Rightarrow> PermissionDenied)"

fun check_permissions :: "User option \<Rightarrow> (exc + bool) list \<Rightarrow> exc + unit" where
  "check_permissions ru [] = Inr ()"
| "check_permissions ru (r # rs) =
     (case r of
        Inl e \<Rightarrow> Inl e
      | Inr False \<Rightarrow> Inl (permission_denied ru)
      | Inr True \<Rightarrow> check_permissions ru rs)"

section \<open>Serializers (serializers.py)\<close>

subsection \<open>Field validation\<close>

text \<open>
  The framework validates one field at a time: the field is skipped (absent and not
  required), fails with the messages of the checks it failed, or yields its validated
  value. Values are taken with their JSON type: the framework's lenient conversions (a
  numeric string for an integer field, a number for a string field) and the syntactic
  validators of the framework's own user model (username alphabet, e-mail format) are
  not modelled.
\<close>

datatype field_result = Skip | Fail "string list" | Ok jval

text \<open>The characters that Python's \<open>str.strip\<close> removes, among the code points below 256.\<close>

definition is_space :: "char \<Rightarrow> bool" where
  "is_space c =
     (c \<in> set [CHR 0x09, CHR 0x0A, CHR 0x0B, CHR 0x0C, CHR 0x0D, CHR 0x1C, CHR 0x1D, CHR 0x1E,
                CHR 0x1F, CHR 0x20, CHR 0x85, CHR 0xA0])"

definition strip :: "string \<Rightarrow> string" where
  "strip s = rev (dropWhile is_space (rev (dropWhile is_space s)))"

text \<open>
  A string field: blank after stripping is refused unless allowed; otherwise the
  validators run on the stripped text, and every one that fails adds its message (the
  length limit, and no null character).
\<close>

definition CharField :: "bool \<Rightarrow> bool \<Rightarrow> nat option \<Rightarrow> jval option \<Rightarrow> field_result" where
  "CharField required allow_blank max_length v =
     (case v of
        None \<Rightarrow> if required then Fail [''This field is required.''] else Skip
      | Some JNull \<Rightarrow> Fail [''This field may not be null.'']
      | Some (JStr s) \<Rightarrow>
          (let s' = strip s in
           if s' = [] then (if allow_blank then Ok (JStr []) else Fail [''This field may not be blank.''])
           else (let errors =
                       (case max_length of
                          None \<Rightarrow> []
                        | Some m \<Rightarrow>
                            if length s' > m
                            then [''Ensure this field has no more than '' @ str_nat m @ '' characters.'']
                            else [])
                       @ (if CHR 0x00 \<in> set s' then [''Null characters are not allowed.''] else [])
                 in if errors = [] then Ok (JStr s') else Fail errors))
      | Some _ \<Rightarrow> Fail [''Not a valid string.''])"

text \<open>
  An integer field of a model serializer carries the range of the database's integer
  column as its minimum and maximum (\<open>integer_field_range\<close> of the database backend, a
  parameter here).
\<close>

definition IntegerField :: "int \<times> int \<Rightarrow> jval option \<Rightarrow> field_result" where
  "IntegerField integer_field_range v =
     (case v of
        None \<Rightarrow> Fail [''This field is required.'']
      | Some JNull \<Rightarrow> Fail [''This field may not be null.'']
      | Some (JInt n) \<Rightarrow>
          if n > snd integer_field_range
          then Fail [''Ensure this value is less than or equal to ''
                     @ str_int (snd integer_field_range) @ ''.'']
          else if n < fst integer_field_range
          then Fail [''Ensure this value is greater than or equal to ''
                     @ str_int (fst integer_field_range) @ ''.'']
          else Ok (JInt n)
      | Some _ \<Rightarrow> Fail [''A valid integer is required.''])"

definition ChoiceField :: "(string \<times> string) list \<Rightarrow> jval option \<Rightarrow> field_result" where
  "ChoiceField choices v =
     (case v of
        None \<Rightarrow> Fail [''This field is required.'']
      | Some JNull \<Rightarrow> Fail [''This field may not be null.'']
      | Some (JStr s) \<Rightarrow>
          if s \<in> set (map fst choices) then Ok (JStr s)
          else Fail [[CHR 0x22] @ s @ [CHR 0x22] @ '' is not a valid choice.'']
      | Some _ \<Rightarrow> Fail [''Not a valid choice.''])"

text \<open>A field-level hook \<open>validate_<field>\<close> runs on the value the field accepted.\<close>

definition with_hook :: "field_result \<Rightarrow> (jval \<Rightarrow> field_result) \<Rightarrow> field_result" where
  "with_hook r hook = (case r of Ok v \<Rightarrow> hook v | _ \<Rightarrow> r)"

fun field_errors :: "(string \<times> field_result) list \<Rightarrow> dict" where
  "field_errors [] = []"
| "field_errors ((f, Fail ms) # rs) = (f, JList (map JStr ms)) # field_errors rs"
| "field_errors ((f, Skip) # rs) = field_errors rs"
| "field_errors ((f, Ok v) # rs) = field_errors rs"

fun validated_values :: "(string \<times> field_result) list \<Rightarrow> dict" where
  "validated_values [] = []"
| "validated_values ((f, Ok v) # rs) = (f, v) # validated_values rs"
| "validated_values ((f, Skip) # rs) = validated_values rs"
| "validated_values ((f, Fail ms) # rs) = validated_values rs"

text \<open>All fields are run; any failure makes the errors the result.\<close>

definition to_internal_value :: "(string \<times> field_result) list \<Rightarrow> dict + dict" where
  "to_internal_value rs =
     (if field_errors rs = [] then Inr (validated_values rs) else Inl (field_errors rs))"

definition str_of :: "jval \<Rightarrow> string" where
  "str_of v = (case v of JStr s \<Rightarrow> s | _ \<Rightarrow> [])"

text \<open>\<open>d[k]\<close> on a Python dict.\<close>

definition dict_index :: "dict \<Rightarrow> string \<Rightarrow> exc + jval" where
  "dict_index d k = (case dict_get d k of None \<Rightarrow> Inl KeyError | Some v \<Rightarrow> Inr v)"

subsection \<open>UserRegistrationSerializer and signup (views.py, signup)\<close>

text \<open>
  The fields, in the order of \<open>Meta.fields\<close>. The username is unique among the users
  (the model serializer checks it while validating); the e-mail may be left out or blank,
  as on the user model.
\<close>

definition username_field :: "db \<Rightarrow> jval option \<Rightarrow> field_result" where
  "username_field d v =
     with_hook (CharField True False (Some 150) v)
       (\<lambda>x. if get_user_by_username d (str_of x) \<noteq> None
            then Fail [''A user with that username already exists.''] else Ok x)"

definition UserRegistrationSerializer_fields :: "db \<Rightarrow> dict \<Rightarrow> (string \<times> field_result) list" where
  "UserRegistrationSerializer_fields d data =
     [(''username'', username_field d (dict_get data ''username'')),
      (''email'', CharField False True (Some 254) (dict_get data ''email'')),
      (''password'', CharField True False None (dict_get data ''password'')),
      (''password2'', CharField True False None (dict_get data ''password2'')),
      (''role'', ChoiceField USER_ROLES (dict_get data ''role''))]"

definition UserRegistrationSerializer_validate :: "dict \<Rightarrow> dict + dict" where
  "UserRegistrationSerializer_validate attrs =
     (if dict_get attrs ''password'' \<noteq> dict_get attrs ''password2''
      then Inl [(''password'', JList [JStr ''Password fields didn't match.''])]
      else Inr attrs)"

definition UserRegistrationSerializer_is_valid :: "db \<Rightarrow> dict \<Rightarrow> dict + dict" where
  "UserRegistrationSerializer_is_valid d data =
     (case to_internal_value (UserRegistrationSerializer_fields d data) of
        Inl errors \<Rightarrow> Inl errors
      | Inr attrs \<Rightarrow> UserRegistrationSerializer_validate attrs)"

text \<open>
  \<open>create\<close>: the user is created (which runs the post-save hooks), then a profile with
  the requested role is created for it.
\<close>

definition UserRegistrationSerializer_create :: "db \<Rightarrow> dict \<Rightarrow> db \<times> (exc + User)" where
  "UserRegistrationSerializer_create d validated_data =
     (case dict_index validated_data ''role'' of
        Inl e \<Rightarrow> (d, Inl e)
      | Inr role_v \<Rightarrow>
     (case dict_index validated_data ''password2'' of
        Inl e \<Rightarrow> (d, Inl e)
      | Inr _ \<Rightarrow>
     (case dict_index validated_data ''username'' of
        Inl e \<Rightarrow> (d, Inl e)
      | Inr username_v \<Rightarrow>
     (case dict_index validated_data ''email'' of
        Inl e \<Rightarrow> (d, Inl e)
      | Inr email_v \<Rightarrow>
     (case dict_index validated_data ''password'' of
        Inl e \<Rightarrow> (d, Inl e)
      | Inr password_v \<Rightarrow>
     (case create_user d (str_of username_v) (str_of email_v) (str_of password_v) of
        (d1, Inl e) \<Rightarrow> (d1, Inl e)
      | (d1, Inr user) \<Rightarrow>
     (case Profile_objects_create d1 (u_id user) (str_of role_v) of
        (d2, Inl e) \<Rightarrow> (d2, Inl e)
      | (d2, Inr _) \<Rightarrow> (d2, Inr user))))))))"

definition signup_body :: "db \<Rightarrow> dict \<Rightarrow> string \<Rightarrow> db \<times> (exc + (nat \<times> jval))" where
  "signup_body d data fresh_key =
     (case UserRegistrationSerializer_is_valid d data of
        Inl errors \<Rightarrow> (d, Inr (400, JObj errors))
      | Inr validated_data \<Rightarrow>
          (case UserRegistrationSerializer_create d validated_data of
             (d1, Inl e) \<Rightarrow>
               if e = IntegrityError
               then (d1, Inr (400, JObj [(''detail'', JStr ''Username or email already exists.''),
                                         (''status_code'', JInt 400)]))
               else (d1, Inl e)
           | (d1, Inr user) \<Rightarrow>
               (case Token_get_or_create d1 user fresh_key of
                  (d2, _) \<Rightarrow>
                    (case get_profile d2 user of
                       Inl e \<Rightarrow> (d2, Inl e)
                     | Inr p \<Rightarrow>
                         (d2, Inr (201, JObj
                            [(''message'', JStr ''User registered successfully. Please login to get your token.''),
                             (''user_id'', JInt (int (u_id user))),
                             (''username'', JStr (username user)),
                             (''role'', JStr (role p))]))))))"

definition signup :: "db \<Rightarrow> dict \<Rightarrow> string \<Rightarrow> db \<times> outcome" where
  "signup d data fresh_key =
     (case signup_body d data fresh_key of (d', r) \<Rightarrow> (d', dispatch r))"

subsection \<open>PatientSerializer\<close>

definition UserSerializer_to_representation :: "User \<Rightarrow> jval" where
  "UserSerializer_to_representation u =
     JObj [(''id'', JInt (int (u_id u))), (''username'', JStr (username u)), (''email'', JStr (email u))]"

definition validate_age :: "jval \<Rightarrow> field_result" where
  "validate_age v =
     (case v of
        JInt n \<Rightarrow> if n \<le> 0 then Fail [''Age must be greater than 0.''] else Ok v
      | _ \<Rightarrow> Ok v)"

text \<open>
  The serializer's fields with their read-only flag: the primary key, the nested
  \<open>created_by\<close> (declared \<open>read_only=True\<close>) and \<open>created_at\<close> are read-only, and input
  is read for the writable fields only.
\<close>

definition PatientSerializer_field :: "int \<times> int \<Rightarrow> string \<Rightarrow> jval option \<Rightarrow> field_result" where
  "PatientSerializer_field integer_field_range f v =
     (if f = ''name'' then CharField True False (Some 255) v
      else if f = ''age'' then with_hook (IntegerField integer_field_range v) validate_age
      else if f = ''gender'' then ChoiceField GENDER_CHOICES v
      else if f = ''address'' then CharField True False None v
      else Skip)"

definition PatientSerializer_Meta_fields :: "(string \<times> bool) list" where
  "PatientSerializer_Meta_fields =
     [(''id'', True), (''name'', False), (''age'', False), (''gender'', False),
      (''address'', False), (''created_by'', True), (''created_at'', True)]"

definition writable_fields :: "(string \<times> bool) list \<Rightarrow> string list" where
  "writable_fields fs = map fst (filter (\<lambda>(f, read_only). \<not> read_only) fs)"

definition PatientSerializer_is_valid :: "int \<times> int \<Rightarrow> dict \<Rightarrow> dict + dict" where
  "PatientSerializer_is_valid integer_field_range data =
     to_internal_value
       (map (\<lambda>f. (f, PatientSerializer_field integer_field_range f (dict_get data f)))
            (writable_fields PatientSerializer_Meta_fields))"

definition PatientSerializer_to_representation :: "db \<Rightarrow> Patient \<Rightarrow> jval" where
  "PatientSerializer_to_representation d pat =
     JObj [(''id'', JInt (int (p_id pat))),
           (''name'', JStr (name pat)),
           (''age'', JInt (age pat)),
           (''gender'', JStr (gender pat)),
           (''address'', JStr (address pat)),
           (''created_by'',
              (case find (\<lambda>u. u_id u = created_by pat) (users d) of
                 None \<Rightarrow> JNull
               | Some u \<Rightarrow> UserSerializer_to_representation u)),
           (''created_at'', JInt (int (created_at pat)))]"

text \<open>
  \<open>Patient.objects.create(**kwargs)\<close> with the creation time set by the database layer.
  The owner is the user passed as \<open>created_by\<close>, carried in the dict by its id.
\<close>

definition Patient_objects_create :: "db \<Rightarrow> dict \<Rightarrow> nat \<Rightarrow> db \<times> (exc + Patient)" where
  "Patient_objects_create d kwargs now =
     (case (dict_get kwargs ''name'', dict_get kwargs ''age'', dict_get kwargs ''gender'',
            dict_get kwargs ''address'', dict_get kwargs ''created_by'') of
        (Some (JStr n), Some (JInt a), Some (JStr g), Some (JStr ad), Some (JInt c)) \<Rightarrow>
          (let pat = \<lparr>p_id = fresh_id (map p_id (patients d)), name = n, age = a, gender = g,
                       address = ad, created_by = nat c, created_at = now\<rparr>
           in (d\<lparr>patients := patients d @ [pat]\<rparr>, Inr pat))
      | _ \<Rightarrow> (d, Inl IntegrityError))"

text \<open>\<open>serializer.save(**kwargs)\<close>: the keyword arguments override the validated data.\<close>

definition PatientSerializer_save :: "db \<Rightarrow> dict \<Rightarrow> dict \<Rightarrow> nat \<Rightarrow> db \<times> (exc + Patient)" where
  "PatientSerializer_save d validated_data kwargs now =
     Patient_objects_create d (dict_merge validated_data kwargs) now"

section \<open>Querysets\<close>

text \<open>
  Both models declare \<open>ordering = ['-created_at']\<close>: every queryset comes back
  newest first. Rows with equal times come in the order the insertion sort leaves them;
  the database promises no order among them.
\<close>

fun insert_desc :: "('a \<Rightarrow> nat) \<Rightarrow> 'a \<Rightarrow> 'a list \<Rightarrow> 'a list" where
  "insert_desc k x [] = [x]"
| "insert_desc k x (y # ys) = (if k y \<le> k x then x # y # ys else y # insert_desc k x ys)"

definition order_desc :: "('a \<Rightarrow> nat) \<Rightarrow> 'a list \<Rightarrow> 'a list" where
  "order_desc k xs = foldr (insert_desc k) xs []"

definition Patient_objects_all :: "db \<Rightarrow> Patient list" where
  "Patient_objects_all d = order_desc created_at (patients d)"

definition Patient_objects_filter_created_by :: "db \<Rightarrow> User \<Rightarrow> Patient list" where
  "Patient_objects_filter_created_by d user =
     order_desc created_at (filter (\<lambda>pat. created_by pat = u_id user) (patients d))"

definition Patient_objects_get :: "db \<Rightarrow> nat \<Rightarrow> Patient option" where
  "Patient_objects_get d pk = find (\<lambda>pat. p_id pat = pk) (patients d)"

definition MedicalRecord_objects_filter_patient :: "db \<Rightarrow> Patient \<Rightarrow> MedicalRecord list" where
  "MedicalRecord_objects_filter_patient d pat =
     order_desc r_created_at (filter (\<lambda>r. patient r = p_id pat) (medical_records d))"

section \<open>Patient views (views.py)\<close>

text \<open>\<open>user.profile.role == r\<close> guarded by \<open>hasattr(user, 'profile')\<close>.\<close>

definition has_profile_role :: "db \<Rightarrow> User \<Rightarrow> string \<Rightarrow> bool" where
  "has_profile_role d user r =
     (hasattr_profile d user \<and> (case profile_of d (u_id user) of None \<Rightarrow> False | Some p \<Rightarrow> role p = r))"

definition PatientListCreateView_permissions :: "db \<Rightarrow> User option \<Rightarrow> (exc + bool) list" where
  "PatientListCreateView_permissions d ru =
     [IsAuthenticated_has_permission ru,
      OR_has_permission (IsDoctor_has_permission d ru) (IsAdmin_has_permission d ru)]"

definition PatientListCreateView_get_queryset :: "db \<Rightarrow> User \<Rightarrow> Patient list" where
  "PatientListCreateView_get_queryset d user =
     (if is_superuser user \<or> has_profile_role d user ''admin''
      then Patient_objects_all d
      else Patient_objects_filter_created_by d user)"

text \<open>GET on the collection. Pagination is left to the framework's settings.\<close>

definition PatientListCreateView_get :: "db \<Rightarrow> User option \<Rightarrow> outcome" where
  "PatientListCreateView_get d ru =
     dispatch
       (case check_permissions ru (PatientListCreateView_permissions d ru) of
          Inl e \<Rightarrow> Inl e
        | Inr _ \<Rightarrow>
            (case ru of
               None \<Rightarrow> Inl AttributeError
             | Some user \<Rightarrow>
                 Inr (200, JList (map (PatientSerializer_to_representation d)
                                      (PatientListCreateView_get_queryset d user)))))"

definition PatientListCreateView_perform_create ::
  "db \<Rightarrow> User \<Rightarrow> dict \<Rightarrow> nat \<Rightarrow> db \<times> (exc + Patient)" where
  "PatientListCreateView_perform_create d user validated_data now =
     (if \<not> (is_superuser user \<or> has_profile_role d user ''doctor'')
      then (d, Inl (APIException ''Only doctors can create patients.''))
      else PatientSerializer_save d validated_data [(''created_by'', JInt (int (u_id user)))] now)"

text \<open>POST on the collection: permissions, then validation, then \<open>perform_create\<close>.\<close>

definition PatientListCreateView_post_body ::
  "int \<times> int \<Rightarrow> db \<Rightarrow> User option \<Rightarrow> dict \<Rightarrow> nat \<Rightarrow> db \<times> (exc + (nat \<times> jval))" where
  "PatientListCreateView_post_body integer_field_range d ru data now =
     (case check_permissions ru (PatientListCreateView_permissions d ru) of
        Inl e \<Rightarrow> (d, Inl e)
      | Inr _ \<Rightarrow>
          (case ru of
             None \<Rightarrow> (d, Inl AttributeError)
           | Some user \<Rightarrow>
               (case PatientSerializer_is_valid integer_field_range data of
                  Inl errors \<Rightarrow> (d, Inl (ValidationError errors))
                | Inr validated_data \<Rightarrow>
                    (case PatientListCreateView_perform_create d user validated_data now of
                       (d1, Inl e) \<Rightarrow> (d1, Inl e)
                     | (d1, Inr pat) \<Rightarrow>
                         (d1, Inr (201, PatientSerializer_to_representation d1 pat))))))"

definition PatientListCreateView_post ::
  "int \<times> int \<Rightarrow> db \<Rightarrow> User option \<Rightarrow> dict \<Rightarrow> nat \<Rightarrow> db \<times> outcome" where
  "PatientListCreateView_post integer_field_range d ru data now =
     (case PatientListCreateView_post_body integer_field_range d ru data now of
        (d', r) \<Rightarrow> (d', dispatch r))"

text \<open>
  Retrieve one patient. \<open>IsOwnerOrAdmin\<close> defines no request-level check, so the
  framework's default (true) stands there; \<open>get_object\<close> looks the row up (404 when
  absent) and then runs the object-level checks.
\<close>

definition PatientDetailView_get :: "db \<Rightarrow> User option \<Rightarrow> nat \<Rightarrow> outcome" where
  "PatientDetailView_get d ru pk =
     dispatch
       (case check_permissions ru [IsAuthenticated_has_permission ru, Inr True] of
          Inl e \<Rightarrow> Inl e
        | Inr _ \<Rightarrow>
            (case Patient_objects_get d pk of
               None \<Rightarrow> Inl Http404
             | Some pat \<Rightarrow>
                 (case check_permissions ru
                         [Inr True, IsOwnerOrAdmin_has_object_permission d ru (PatientObj pat)] of
                    Inl e \<Rightarrow> Inl e
                  | Inr _ \<Rightarrow> Inr (200, PatientSerializer_to_representation d pat))))"

section \<open>Medical record serializer and views\<close>

definition py_type_name :: "jval \<Rightarrow> string" where
  "py_type_name v =
     (case v of JNull \<Rightarrow> ''NoneType'' | JBool _ \<Rightarrow> ''bool'' | JInt _ \<Rightarrow> ''int''
      | JStr _ \<Rightarrow> ''str'' | JList _ \<Rightarrow> ''list'' | JObj _ \<Rightarrow> ''dict'')"

text \<open>The \<open>patient\<close> field of the model serializer: a primary key that must exist.\<close>

definition PrimaryKeyRelatedField :: "db \<Rightarrow> jval option \<Rightarrow> string + Patient" where
  "PrimaryKeyRelatedField d v =
     (case v of
        None \<Rightarrow> Inl ''This field is required.''
      | Some JNull \<Rightarrow> Inl ''This field may not be null.''
      | Some (JInt n) \<Rightarrow>
          (case (if n < 0 then None else Patient_objects_get d (nat n)) of
             None \<Rightarrow>
               Inl (''Invalid pk '' @ [CHR 0x22] @ str_int n @ [CHR 0x22] @ '' - object does not exist.'')
           | Some pat \<Rightarrow> Inr pat)
      | Some x \<Rightarrow> Inl (''Incorrect type. Expected pk value, received '' @ py_type_name x @ ''.''))"

definition validate_patient :: "db \<Rightarrow> User option \<Rightarrow> Patient \<Rightarrow> exc + field_result" where
  "validate_patient d ru value =
     (case ru of
        None \<Rightarrow> Inl AttributeError
      | Some u \<Rightarrow>
          if is_superuser u then Inr (Ok (JInt (int (p_id value))))
          else (case get_profile d u of
                  Inl e \<Rightarrow> Inl e
                | Inr p \<Rightarrow>
                    if role p \<noteq> ''admin'' \<and> \<not> created_by value = u_id u
                    then Inr (Fail [''You can only add medical records to your own patients.''])
                    else Inr (Ok (JInt (int (p_id value))))))"

definition patient_field :: "db \<Rightarrow> User option \<Rightarrow> jval option \<Rightarrow> exc + field_result" where
  "patient_field d ru v =
     (case PrimaryKeyRelatedField d v of
        Inl msg \<Rightarrow> Inr (Fail [msg])
      | Inr pat \<Rightarrow> validate_patient d ru pat)"

definition MedicalRecordSerializer_is_valid :: "db \<Rightarrow> User option \<Rightarrow> dict \<Rightarrow> exc + dict" where
  "MedicalRecordSerializer_is_valid d ru data =
     (case patient_field d ru (dict_get data ''patient'') of
        Inl e \<Rightarrow> Inl e
      | Inr patient_result \<Rightarrow>
          (case to_internal_value
                  [(''patient'', patient_result),
                   (''symptoms'', CharField True False None (dict_get data ''symptoms'')),
                   (''diagnosis'', CharField True False None (dict_get data ''diagnosis'')),
                   (''treatment'', CharField True False None (dict_get data ''treatment''))] of
             Inl errors \<Rightarrow> Inl (ValidationError errors)
           | Inr validated_data \<Rightarrow> Inr validated_data))"

definition MedicalRecord_objects_create :: "db \<Rightarrow> dict \<Rightarrow> nat \<Rightarrow> db \<times> (exc + MedicalRecord)" where
  "MedicalRecord_objects_create d kwargs now =
     (case (dict_get kwargs ''patient'', dict_get kwargs ''symptoms'',
            dict_get kwargs ''diagnosis'', dict_get kwargs ''treatment'') of
        (Some (JInt pk), Some (JStr s), Some (JStr dg), Some (JStr t)) \<Rightarrow>
          (let r = \<lparr>r_id = fresh_id (map r_id (medical_records d)), patient = nat pk,
                     symptoms = s, diagnosis = dg, treatment = t, r_created_at = now\<rparr>
           in (d\<lparr>medical_records := medical_records d @ [r]\<rparr>, Inr r))
      | _ \<Rightarrow> (d, Inl IntegrityError))"

definition MedicalRecordSerializer_to_representation :: "db \<Rightarrow> MedicalRecord \<Rightarrow> jval" where
  "MedicalRecordSerializer_to_representation d r =
     JObj [(''id'', JInt (int (r_id r))),
           (''patient'', JInt (int (patient r))),
           (''patient_name'',
              (case Patient_objects_get d (patient r) of None \<Rightarrow> JNull | Some pat \<Rightarrow> JStr (name pat))),
           (''symptoms'', JStr (symptoms r)),
           (''diagnosis'', JStr (diagnosis r)),
           (''treatment'', JStr (treatment r)),
           (''created_at'', JInt (int (r_created_at r)))]"

definition MedicalRecordAddView_perform_create ::
  "db \<Rightarrow> User \<Rightarrow> dict \<Rightarrow> dict \<Rightarrow> nat \<Rightarrow> db \<times> (exc + MedicalRecord)" where
  "MedicalRecordAddView_perform_create d user data validated_data now =
     (case (case dict_get data ''patient'' of
              Some (JInt n) \<Rightarrow> (if n < 0 then None else Patient_objects_get d (nat n))
            | _ \<Rightarrow> None) of
        None \<Rightarrow> (d, Inl (APIException ''Patient not found.''))
      | Some pat \<Rightarrow>
          if \<not> (is_superuser user \<or> has_profile_role d user ''admin'') \<and> created_by pat \<noteq> u_id user
          then (d, Inl (APIException ''You can only add medical records to your own patients.''))
          else MedicalRecord_objects_create d
                 (dict_merge validated_data [(''patient'', JInt (int (p_id pat)))]) now)"

text \<open>
  Add a record: the gate is \<open>[IsAuthenticated, IsDoctor]\<close>; then the serializer
  validates the body (a failure is a validation error), then \<open>perform_create\<close> runs.
\<close>

definition MedicalRecordAddView_post_body ::
  "db \<Rightarrow> User option \<Rightarrow> dict \<Rightarrow> nat \<Rightarrow> db \<times> (exc + (nat \<times> jval))" where
  "MedicalRecordAddView_post_body d ru data now =
     (case check_permissions ru [IsAuthenticated_has_permission ru, IsDoctor_has_permission d ru] of
        Inl e \<Rightarrow> (d, Inl e)
      | Inr _ \<Rightarrow>
          (case ru of
             None \<Rightarrow> (d, Inl AttributeError)
           | Some user \<Rightarrow>
               (case MedicalRecordSerializer_is_valid d ru data of
                  Inl e \<Rightarrow> (d, Inl e)
                | Inr validated_data \<Rightarrow>
                    (case MedicalRecordAddView_perform_create d user data validated_data now of
                       (d1, Inl e) \<Rightarrow> (d1, Inl e)
                     | (d1, Inr r) \<Rightarrow>
                         (d1, Inr (201, MedicalRecordSerializer_to_representation d1 r))))))"

definition MedicalRecordAddView_post :: "db \<Rightarrow> User option \<Rightarrow> dict \<Rightarrow> nat \<Rightarrow> db \<times> outcome" where
  "MedicalRecordAddView_post d ru data now =
     (case MedicalRecordAddView_post_body d ru data now of (d', r) \<Rightarrow> (d', dispatch r))"

text \<open>
  List the records of a patient: the gate, then \<open>get_queryset\<close>, which looks the
  patient up, runs the object-level checks on the patient row and filters the records.
\<close>

definition PatientMedicalRecordListView_get_queryset ::
  "db \<Rightarrow> User option \<Rightarrow> nat \<Rightarrow> exc + MedicalRecord list" where
  "PatientMedicalRecordListView_get_queryset d ru pk =
     (case Patient_objects_get d pk of
        None \<Rightarrow> Inl (APIException ''Patient not found.'')
      | Some pat \<Rightarrow>
          (case check_permissions ru
                  [Inr True, IsPatientRecordOwnerOrAdmin_has_object_permission d ru (PatientObj pat)] of
             Inl e \<Rightarrow> Inl e
           | Inr _ \<Rightarrow> Inr (MedicalRecord_objects_filter_patient d pat)))"

definition PatientMedicalRecordListView_get :: "db \<Rightarrow> User option \<Rightarrow> nat \<Rightarrow> outcome" where
  "PatientMedicalRecordListView_get d ru pk =
     dispatch
       (case check_permissions ru
               [IsAuthenticated_has_permission ru, IsPatientRecordOwnerOrAdmin_has_permission d ru] of
          Inl e \<Rightarrow> Inl e
        | Inr _ \<Rightarrow>
            (case PatientMedicalRecordListView_get_queryset d ru pk of
               Inl e \<Rightarrow> Inl e
             | Inr rs \<Rightarrow> Inr (200, JList (map (MedicalRecordSerializer_to_representation d) rs))))"

section \<open>Reachable states\<close>

text \<open>
  \<open>profile.role = r; profile.save()\<close>, as the tests' \<open>setUp\<close> and the admin site do.
\<close>

definition Profile_set_role :: "db \<Rightarrow> nat \<Rightarrow> string \<Rightarrow> db" where
  "Profile_set_role d uid r =
     d\<lparr>profiles := map (\<lambda>p. if user_id p = uid then p\<lparr>role := r\<rparr> else p) (profiles d)\<rparr>"

text \<open>
  The states the database can be in: empty at first, then changed by saving a new user
  (\<open>create_user\<close>, \<open>create_superuser\<close>), by the views (whatever the database's integer
  range and Python's rendering of values are), and by the direct calls of the object
  managers that the tests and the admin site make. A profile can only be created
  for a user that exists (the foreign key). No operation deletes a row.
\<close>

inductive reachable :: "db \<Rightarrow> bool" where
  start: "reachable empty_db"
| user_saved: "reachable d \<Longrightarrow> User_save_new d un em pw su = (d', ru) \<Longrightarrow> reachable d'"
| profile_created:
    "reachable d \<Longrightarrow> u \<in> set (users d) \<Longrightarrow> Profile_objects_create d (u_id u) r = (d', rp)
     \<Longrightarrow> reachable d'"
| role_set: "reachable d \<Longrightarrow> reachable (Profile_set_role d uid r)"
| token_created: "reachable d \<Longrightarrow> Token_get_or_create d u k = (d', key) \<Longrightarrow> reachable d'"
| patient_created: "reachable d \<Longrightarrow> Patient_objects_create d kwargs now = (d', rpat) \<Longrightarrow> reachable d'"
| record_created:
    "reachable d \<Longrightarrow> MedicalRecord_objects_create d kwargs now = (d', rrec) \<Longrightarrow> reachable d'"
| signed_up: "reachable d \<Longrightarrow> signup d data k = (d', out) \<Longrightarrow> reachable d'"
| logged_in: "reachable d \<Longrightarrow> login_view repr d data k = (d', out) \<Longrightarrow> reachable d'"
| patient_posted:
    "reachable d \<Longrightarrow> PatientListCreateView_post rng d actor data now = (d', out)
     \<Longrightarrow> reachable d'"
| record_posted:
    "reachable d \<Longrightarrow> MedicalRecordAddView_post d actor data now = (d', out) \<Longrightarrow> reachable d'"

text \<open>
  Users and profiles agree: every user has a profile row, and every profile row belongs
  to a user.
\<close>

definition db_inv :: "db \<Rightarrow> bool" where
  "db_inv d =
     (list_all (\<lambda>u. profile_of d (u_id u) \<noteq> None) (users d)
      \<and> list_all (\<lambda>p. user_id p \<in> set (map u_id (users d))) (profiles d))"

section \<open>A sample database\<close>

text \<open>
  The state that \<open>setUp\<close> of the repository's tests describes: two doctors, a superuser
  whose profile has the role \<open>admin\<close>, three patients and two records. A fourth user,
  not a superuser, has the role \<open>admin\<close>.
\<close>

definition sample_db :: db where
  "sample_db =
     \<lparr>users =
        [\<lparr>u_id = 1, username = ''doctor1'', email = [], password = ''doc1pass'', is_superuser = False\<rparr>,
         \<lparr>u_id = 2, username = ''doctor2'', email = [], password = ''doc2pass'', is_superuser = False\<rparr>,
         \<lparr>u_id = 3, username = ''admin'', email = [], password = ''adminpass'', is_superuser = True\<rparr>,
         \<lparr>u_id = 4, username = ''clerk'', email = [], password = ''clerkpass'', is_superuser = False\<rparr>],
      profiles =
        [\<lparr>user_id = 1, role = ''doctor''\<rparr>, \<lparr>user_id = 2, role = ''doctor''\<rparr>,
         \<lparr>user_id = 3, role = ''admin''\<rparr>, \<lparr>user_id = 4, role = ''admin''\<rparr>],
      patients =
        [\<lparr>p_id = 1, name = ''Patient A'', age = 30, gender = ''Male'', address = ''123 Main St'',
          created_by = 1, created_at = 10\<rparr>,
         \<lparr>p_id = 2, name = ''Patient B'', age = 45, gender = ''Female'', address = ''456 Oak Ave'',
          created_by = 1, created_at = 11\<rparr>,
         \<lparr>p_id = 3, name = ''Patient C'', age = 25, gender = ''Other'', address = ''789 Pine Rd'',
          created_by = 2, created_at = 12\<rparr>],
      medical_records =
        [\<lparr>r_id = 1, patient = 1, symptoms = ''Fever'', diagnosis = ''Flu'', treatment = ''Rest'',
          r_created_at = 13\<rparr>,
         \<lparr>r_id = 2, patient = 1, symptoms = ''Cough'', diagnosis = ''Cold'', treatment = ''Medication'',
          r_created_at = 14\<rparr>],
      tokens = [(1, ''t1''), (2, ''t2''), (3, ''t3''), (4, ''t4'')]\<rparr>"

definition doctor1 :: User where
  "doctor1 = \<lparr>u_id = 1, username = ''doctor1'', email = [], password = ''doc1pass'', is_superuser = False\<rparr>"
definition admin_user :: User where
  "admin_user = \<lparr>u_id = 3, username = ''admin'', email = [], password = ''adminpass'', is_superuser = True\<rparr>"
definition clerk :: User where
  "clerk = \<lparr>u_id = 4, username = ''clerk'', email = [], password = ''clerkpass'', is_superuser = False\<rparr>"


definition doctor2 :: User where
  "doctor2 = \<lparr>u_id = 2, username = ''doctor2'', email = [], password = ''doc2pass'', is_superuser = False\<rparr>"

text \<open>The range of a 32-bit integer column, as most database backends have it.\<close>

definition int32_range :: "int \<times> int" where
  "int32_range = (- 2147483648, 2147483647)"

definition record_payload :: "int \<Rightarrow> dict" where
  "record_payload pk =
     [(''patient'', JInt pk), (''symptoms'', JStr ''Headache''),
      (''diagnosis'', JStr ''Migraine''), (''treatment'', JStr ''Painkillers'')]"

definition patient_payload :: dict where
  "patient_payload =
     [(''name'', JStr ''Admin Patient''), (''age'', JInt 50), (''gender'', JStr ''Male''),
      (''address'', JStr ''Admin Patient Address'')]"

definition signup_payload :: "string \<Rightarrow> dict" where
  "signup_payload r =
     [(''username'', JStr ''testadmin''), (''email'', JStr ''admin@example.com''),
      (''password'', JStr ''password123''), (''password2'', JStr ''password123''),
      (''role'', JStr r)]"

section \<open>Properties\<close>






text \<open>
  Outside those requests: a password that is neither a string nor absent, sent with a
  username that no user has, ends in an unhandled \<open>TypeError\<close>, since the framework
  hashes the password of a missing user and refuses to hash anything but text.
\<close>

lemma login_unknown_user_non_string_password:
  assumes "dict_get data ''username'' = Some (JStr n)" and "get_user_by_username d n = None"
    and "\<not> is_None (dict_get data ''password'')" and "\<not> is_str (dict_get data ''password'')"
  shows "login_view repr d data k = (d, Raised TypeError)"
proof -
  from assms(3) obtain w where w: "dict_get data ''password'' = Some w"
    by (cases "dict_get data ''password''") (auto simp: is_None_def)
  have "authenticate repr d (dict_get data ''username'') (dict_get data ''password'') = Inl TypeError"
    using assms by (simp add: authenticate_def w is_None_def py_str_def)
  then show ?thesis
    by (simp add: login_view_def login_view_body_def dispatch_def custom_exception_handler_def
          drf_exception_handler_def)
qed

text \<open>
  C1 (the code departs from it). The signup of the repository's own test, on an empty
  database: user \<open>testadmin\<close> with matching passwords and the role \<open>admin\<close>. Creating the
  user runs the post-save hook, which gives it a profile with the role \<open>doctor\<close>; the
  serializer's own \<open>Profile.objects.create\<close> is then a second profile for the same
  user, which the database refuses. The view answers 400 "Username or email already
  exists.", and the user row stays, with the role \<open>doctor\<close>.
\<close>

theorem signup_admin_fails:
  "signup empty_db (signup_payload ''admin'') ''k'' =
     (\<lparr>users = [\<lparr>u_id = 1, username = ''testadmin'', email = ''admin@example.com'',
                  password = ''password123'', is_superuser = False\<rparr>],
       profiles = [\<lparr>user_id = 1, role = ''doctor''\<rparr>], patients = [],
       medical_records = [], tokens = []\<rparr>,
      Response 400 (JObj [(''detail'', JStr ''Username or email already exists.''),
                          (''status_code'', JInt 400)]))"
  by code_simp

text \<open>
  C2 (the code departs from it). Doctor 1 lists the records of patient 1, whom they
  created. The object-level check is handed the patient row and reads \<open>obj.patient\<close>,
  which a patient does not have: the request ends in an unhandled \<open>AttributeError\<close>
  instead of the two records. The same happens for a patient of another doctor, where
  a refusal (403) was due.
\<close>

theorem doctor_list_records_raises:
  "PatientMedicalRecordListView_get sample_db (Some doctor1) 1 = Raised AttributeError
   \<and> PatientMedicalRecordListView_get sample_db (Some doctor1) 3 = Raised AttributeError"
  by code_simp

text \<open>
  C3 (the code departs from it). Doctor 1 posts a record for patient 3, who belongs to
  doctor 2: the serializer's \<open>validate_patient\<close> rejects it first, so the answer is a
  validation error, 400 with the message under the key \<open>patient\<close>, not 403 with a
  \<open>detail\<close>. A patient id that does not exist is rejected by the serializer's primary-key
  field, again 400 and not 404. Nothing is stored in either case.
\<close>

theorem add_record_errors_are_400:
  "MedicalRecordAddView_post sample_db (Some doctor1) (record_payload 3) 20 =
     (sample_db,
      Response 400 (JObj [(''patient'',
                             JList [JStr ''You can only add medical records to your own patients.'']),
                          (''status_code'', JInt 400)]))
   \<and> MedicalRecordAddView_post sample_db (Some doctor1) (record_payload 999) 20 =
     (sample_db,
      Response 400 (JObj [(''patient'',
                             JList [JStr (''Invalid pk '' @ [CHR 0x22] @ ''999'' @ [CHR 0x22]
                                          @ '' - object does not exist.'')]),
                          (''status_code'', JInt 400)]))"
  by code_simp

text \<open>
  C4 (the code departs from it). The gate of the add-record view is
  \<open>[IsAuthenticated, IsDoctor]\<close>, and \<open>IsDoctor\<close> asks for the role \<open>doctor\<close>: the
  superuser with the role \<open>admin\<close> of the repository's tests, and a plain user with the
  role \<open>admin\<close>, are both refused with 403 and no record is added.
\<close>

theorem admin_add_record_forbidden:
  "MedicalRecordAddView_post sample_db (Some admin_user) (record_payload 3) 20 =
     (sample_db,
      Response 403 (JObj [(''detail'', JStr ''You do not have permission to perform this action.''),
                          (''status_code'', JInt 403)]))
   \<and> MedicalRecordAddView_post sample_db (Some clerk) (record_payload 3) 20 =
     (sample_db,
      Response 403 (JObj [(''detail'', JStr ''You do not have permission to perform this action.''),
                          (''status_code'', JInt 403)]))"
  by code_simp

lemma mset_insert_desc: "mset (insert_desc k x xs) = add_mset x (mset xs)"
  by (induction xs) auto

lemma mset_order_desc: "mset (order_desc k xs) = mset xs"
  by (induction xs) (auto simp: order_desc_def mset_insert_desc)

lemma set_insert_desc: "set (insert_desc k x xs) = insert x (set xs)"
  by (induction xs) auto

lemma sorted_insert_desc:
  "sorted_wrt (\<lambda>a b. k b \<le> k a) xs \<Longrightarrow> sorted_wrt (\<lambda>a b. k b \<le> k a) (insert_desc k x xs)"
  by (induction xs) (auto simp: set_insert_desc)

lemma sorted_order_desc: "sorted_wrt (\<lambda>a b. k b \<le> k a) (order_desc k xs)"
  by (induction xs) (auto simp: order_desc_def sorted_insert_desc)

lemma gate_passes:
  assumes "profile_of d (u_id user) = Some p"
    and "is_superuser user \<or> role p = ''doctor'' \<or> role p = ''admin''"
  shows "check_permissions (Some user) (PatientListCreateView_permissions d (Some user)) = Inr ()"
  using assms
  by (auto simp: PatientListCreateView_permissions_def IsAuthenticated_has_permission_def
        OR_has_permission_def IsDoctor_has_permission_def IsAdmin_has_permission_def get_profile_def
      split: bool.splits)

text \<open>
  C7. For an authenticated actor (a user with a profile whose role is \<open>doctor\<close> or
  \<open>admin\<close>, or a superuser with a profile), the list of patients is answered with 200
  and holds exactly the rows of the queryset: all patients when the actor is a superuser
  or has the role \<open>admin\<close>, otherwise exactly the patients whose \<open>created_by\<close> is the
  actor, each as often as it is stored; and the rows come newest first by \<open>created_at\<close>.
\<close>

theorem list_patients_scoped:
  assumes "profile_of d (u_id user) = Some p"
    and "is_superuser user \<or> role p = ''doctor'' \<or> role p = ''admin''"
  shows "PatientListCreateView_get d (Some user) =
           Response 200 (JList (map (PatientSerializer_to_representation d)
                                    (PatientListCreateView_get_queryset d user)))
       \<and> mset (PatientListCreateView_get_queryset d user) =
           mset (if is_superuser user \<or> role p = ''admin'' then patients d
                 else filter (\<lambda>pat. created_by pat = u_id user) (patients d))
       \<and> sorted_wrt (\<lambda>a b. created_at b \<le> created_at a) (PatientListCreateView_get_queryset d user)"
proof -
  have 1: "PatientListCreateView_get d (Some user) =
           Response 200 (JList (map (PatientSerializer_to_representation d)
                                    (PatientListCreateView_get_queryset d user)))"
    by (simp add: PatientListCreateView_get_def gate_passes [OF assms] dispatch_def)
  have 2: "has_profile_role d user ''admin'' = (role p = ''admin'')"
    using assms(1) by (simp add: has_profile_role_def hasattr_profile_def)
  have 3: "mset (PatientListCreateView_get_queryset d user) =
           mset (if is_superuser user \<or> role p = ''admin'' then patients d
                 else filter (\<lambda>pat. created_by pat = u_id user) (patients d))"
    by (simp add: PatientListCreateView_get_queryset_def 2 Patient_objects_all_def
          Patient_objects_filter_created_by_def mset_order_desc)
  have 4: "sorted_wrt (\<lambda>a b. created_at b \<le> created_at a) (PatientListCreateView_get_queryset d user)"
    by (simp add: PatientListCreateView_get_queryset_def Patient_objects_all_def
          Patient_objects_filter_created_by_def sorted_order_desc)
  from 1 3 4 show ?thesis by blast
qed

theorem list_patients_scoped_witness:
  "PatientListCreateView_get sample_db (Some doctor1) =
     Response 200 (JList (map (PatientSerializer_to_representation sample_db)
                              (PatientListCreateView_get_queryset sample_db doctor1)))
   \<and> map p_id (PatientListCreateView_get_queryset sample_db doctor1) = [2, 1]
   \<and> map p_id (PatientListCreateView_get_queryset sample_db admin_user) = [3, 2, 1]"
proof -
  have p: "profile_of sample_db (u_id doctor1) = Some \<lparr>user_id = 1, role = ''doctor''\<rparr>"
    by code_simp
  have r: "is_superuser doctor1 \<or> role \<lparr>user_id = 1, role = ''doctor''\<rparr> = ''doctor''
            \<or> role \<lparr>user_id = 1, role = ''doctor''\<rparr> = ''admin''"
    by simp
  have a: "map p_id (PatientListCreateView_get_queryset sample_db doctor1) = [2, 1]"
    by code_simp
  have b: "map p_id (PatientListCreateView_get_queryset sample_db admin_user) = [3, 2, 1]"
    by code_simp
  from list_patients_scoped [OF p r] a b show ?thesis by blast
qed

text \<open>
  C8. Retrieving one patient as an authenticated user: when no patient has the id, the
  answer is 404 whoever asks (no profile is consulted); when the patient exists, the
  answer is the patient's data (200) if the actor is a superuser, has the role \<open>admin\<close>
  or created the patient, and 403 otherwise. The lookup comes before the authorization,
  and the two refusals differ in status.
\<close>

theorem retrieve_patient_outcomes:
  "(Patient_objects_get d pk = None \<longrightarrow>
      PatientDetailView_get d (Some user) pk =
        Response 404 (JObj [(''detail'', JStr ''An unexpected error occurred.''),
                            (''status_code'', JInt 404)]))
   \<and> (is_superuser user \<or> hasattr_profile d user \<longrightarrow>
        PatientDetailView_get d (Some user) pk =
          (case Patient_objects_get d pk of
             None \<Rightarrow>
               Response 404 (JObj [(''detail'', JStr ''An unexpected error occurred.''),
                                   (''status_code'', JInt 404)])
           | Some pat \<Rightarrow>
               if is_superuser user \<or> has_profile_role d user ''admin'' \<or> created_by pat = u_id user
               then Response 200 (PatientSerializer_to_representation d pat)
               else Response 403 (JObj [(''detail'', JStr ''You do not have permission to perform this action.''),
                                        (''status_code'', JInt 403)])))"
  by (auto simp: PatientDetailView_get_def IsAuthenticated_has_permission_def dispatch_def
        custom_exception_handler_def drf_exception_handler_def isinstance_APIException_def
        IsOwnerOrAdmin_has_object_permission_def get_profile_def hasattr_profile_def
        has_profile_role_def permission_denied_def
      split: option.splits)

theorem retrieve_patient_outcomes_witness:
  "PatientDetailView_get sample_db (Some doctor1) 7 =
     Response 404 (JObj [(''detail'', JStr ''An unexpected error occurred.''),
                         (''status_code'', JInt 404)])
   \<and> PatientDetailView_get sample_db (Some doctor1) 3 =
     Response 403 (JObj [(''detail'', JStr ''You do not have permission to perform this action.''),
                         (''status_code'', JInt 403)])
   \<and> PatientDetailView_get sample_db (Some admin_user) 3 =
     Response 200 (PatientSerializer_to_representation sample_db
       \<lparr>p_id = 3, name = ''Patient C'', age = 25, gender = ''Other'', address = ''789 Pine Rd'',
        created_by = 2, created_at = 12\<rparr>)"
proof -
  have n: "Patient_objects_get sample_db 7 = None" by code_simp
  have h1: "is_superuser doctor1 \<or> hasattr_profile sample_db doctor1" by code_simp
  have h3: "is_superuser admin_user \<or> hasattr_profile sample_db admin_user" by code_simp
  have g: "Patient_objects_get sample_db 3 = Some \<lparr>p_id = 3, name = ''Patient C'', age = 25, gender = ''Other'', address = ''789 Pine Rd'',
        created_by = 2, created_at = 12\<rparr>" by code_simp
  have c1: "\<not> (is_superuser doctor1 \<or> has_profile_role sample_db doctor1 ''admin'' \<or> (2::nat) = u_id doctor1)"
    by code_simp
  have c3: "is_superuser admin_user" by code_simp
  have a: "PatientDetailView_get sample_db (Some doctor1) 7 =
     Response 404 (JObj [(''detail'', JStr ''An unexpected error occurred.''),
                         (''status_code'', JInt 404)])"
    using retrieve_patient_outcomes [of sample_db 7 doctor1] n by simp
  have b: "PatientDetailView_get sample_db (Some doctor1) 3 =
     Response 403 (JObj [(''detail'', JStr ''You do not have permission to perform this action.''),
                         (''status_code'', JInt 403)])"
    using retrieve_patient_outcomes [of sample_db 3 doctor1] h1 g c1 by simp
  have c: "PatientDetailView_get sample_db (Some admin_user) 3 =
     Response 200 (PatientSerializer_to_representation sample_db
       \<lparr>p_id = 3, name = ''Patient C'', age = 25, gender = ''Other'', address = ''789 Pine Rd'',
        created_by = 2, created_at = 12\<rparr>)"
    using retrieve_patient_outcomes [of sample_db 3 admin_user] h3 g c3 by simp
  from a b c show ?thesis by blast
qed

subsection \<open>Creating patients\<close>

lemma dict_get_dict_set:
  "dict_get (dict_set d k v) k' = (if k' = k then Some v else dict_get d k')"
  by (induction d) (auto simp: dict_get_def)

lemma dispatch_Inl_not_created: "dispatch (Inl e) \<noteq> Response 201 b"
  by (cases e)
     (auto simp: dispatch_def custom_exception_handler_def drf_exception_handler_def
        isinstance_APIException_def)

lemma PatientSerializer_is_valid_fields:
  "PatientSerializer_is_valid rng data =
     to_internal_value
       [(''name'', CharField True False (Some 255) (dict_get data ''name'')),
        (''age'', with_hook (IntegerField rng (dict_get data ''age'')) validate_age),
        (''gender'', ChoiceField GENDER_CHOICES (dict_get data ''gender'')),
        (''address'', CharField True False None (dict_get data ''address''))]"
  by (simp add: PatientSerializer_is_valid_def writable_fields_def PatientSerializer_Meta_fields_def
        PatientSerializer_field_def)

lemma CharField_required_cases:
  "(\<exists>m. CharField True b ml v = Fail m) \<or> (\<exists>s. CharField True b ml v = Ok (JStr s))"
  by (auto simp: CharField_def Let_def split: option.splits jval.splits)

lemma age_field_cases:
  "(\<exists>m. with_hook (IntegerField rng v) validate_age = Fail m)
   \<or> (\<exists>n. 0 < n \<and> with_hook (IntegerField rng v) validate_age = Ok (JInt n))"
  by (auto simp: with_hook_def IntegerField_def validate_age_def split: option.splits jval.splits)

lemma ChoiceField_cases:
  "(\<exists>m. ChoiceField cs v = Fail m) \<or> (\<exists>s. s \<in> set (map fst cs) \<and> ChoiceField cs v = Ok (JStr s))"
  by (auto simp: ChoiceField_def split: option.splits jval.splits)

lemma field_errors_Nil: "field_errors rs = [] \<Longrightarrow> (f, Fail m) \<notin> set rs"
  by (induction rs rule: field_errors.induct) auto

lemma to_internal_value_Inr:
  "to_internal_value rs = Inr vd \<Longrightarrow> field_errors rs = [] \<and> vd = validated_values rs"
  by (auto simp: to_internal_value_def split: if_splits)

lemma PatientSerializer_is_valid_Inr:
  assumes "PatientSerializer_is_valid rng data = Inr vd"
  shows "\<exists>n a g ad. vd = [(''name'', JStr n), (''age'', JInt a), (''gender'', JStr g), (''address'', JStr ad)]
           \<and> 0 < a \<and> g \<in> set (map fst GENDER_CHOICES)"
proof -
  let ?r1 = "CharField True False (Some 255) (dict_get data ''name'')"
  let ?r2 = "with_hook (IntegerField rng (dict_get data ''age'')) validate_age"
  let ?r3 = "ChoiceField GENDER_CHOICES (dict_get data ''gender'')"
  let ?r4 = "CharField True False None (dict_get data ''address'')"
  let ?rs = "[(''name'', ?r1), (''age'', ?r2), (''gender'', ?r3), (''address'', ?r4)]"
  from assms have "to_internal_value ?rs = Inr vd"
    by (simp only: PatientSerializer_is_valid_fields)
  then have fe: "field_errors ?rs = []" and vd: "vd = validated_values ?rs"
    by (simp_all only: to_internal_value_Inr)
  have nofail: "\<And>f m. (f, Fail m) \<notin> set ?rs"
    by (rule field_errors_Nil [OF fe])
  have nf1: "?r1 \<noteq> Fail m" for m using nofail [of "''name''" m] by auto
  have nf2: "?r2 \<noteq> Fail m" for m using nofail [of "''age''" m] by auto
  have nf3: "?r3 \<noteq> Fail m" for m using nofail [of "''gender''" m] by auto
  have nf4: "?r4 \<noteq> Fail m" for m using nofail [of "''address''" m] by auto
  from CharField_required_cases [of False "Some 255" "dict_get data ''name''"] nf1
  obtain n where r1: "?r1 = Ok (JStr n)" by blast
  from age_field_cases [of rng "dict_get data ''age''"] nf2
  obtain a where r2: "?r2 = Ok (JInt a)" and a: "0 < a" by blast
  from ChoiceField_cases [of GENDER_CHOICES "dict_get data ''gender''"] nf3
  obtain g where r3: "?r3 = Ok (JStr g)" and g: "g \<in> set (map fst GENDER_CHOICES)" by blast
  from CharField_required_cases [of False None "dict_get data ''address''"] nf4
  obtain ad where r4: "?r4 = Ok (JStr ad)" by blast
  have "vd = [(''name'', JStr n), (''age'', JInt a), (''gender'', JStr g), (''address'', JStr ad)]"
    unfolding vd r1 r2 r3 r4 by simp
  with a g show ?thesis by blast
qed

lemma Patient_objects_create_valid:
  "Patient_objects_create d
     [(''name'', JStr n), (''age'', JInt a), (''gender'', JStr g), (''address'', JStr ad),
      (''created_by'', JInt (int uid))] now =
   (d\<lparr>patients := patients d @
        [\<lparr>p_id = fresh_id (map p_id (patients d)), name = n, age = a, gender = g,
          address = ad, created_by = uid, created_at = now\<rparr>]\<rparr>,
    Inr \<lparr>p_id = fresh_id (map p_id (patients d)), name = n, age = a, gender = g,
          address = ad, created_by = uid, created_at = now\<rparr>)"
  by (simp add: Patient_objects_create_def dict_get_def Let_def)

lemma dispatch_Inr: "dispatch (Inr (st, b)) = Response st b"
  by (simp add: dispatch_def)

lemma post_created:
  assumes gate: "check_permissions (Some user) (PatientListCreateView_permissions d (Some user)) = Inr ()"
    and valid: "PatientSerializer_is_valid rng data = Inr vd"
    and doc: "is_superuser user \<or> has_profile_role d user ''doctor''"
  shows "\<exists>pat. PatientListCreateView_post rng d (Some user) data now =
           (d\<lparr>patients := patients d @ [pat]\<rparr>,
            Response 201 (PatientSerializer_to_representation (d\<lparr>patients := patients d @ [pat]\<rparr>) pat))
         \<and> created_by pat = u_id user"
proof -
  from PatientSerializer_is_valid_Inr [OF valid] obtain n a g ad where
    vd: "vd = [(''name'', JStr n), (''age'', JInt a), (''gender'', JStr g), (''address'', JStr ad)]"
    by blast
  have save: "PatientListCreateView_perform_create d user vd now =
     (d\<lparr>patients := patients d @
        [\<lparr>p_id = fresh_id (map p_id (patients d)), name = n, age = a, gender = g,
          address = ad, created_by = u_id user, created_at = now\<rparr>]\<rparr>,
      Inr \<lparr>p_id = fresh_id (map p_id (patients d)), name = n, age = a, gender = g,
          address = ad, created_by = u_id user, created_at = now\<rparr>)"
    using doc
    by (simp add: PatientListCreateView_perform_create_def PatientSerializer_save_def vd
          Patient_objects_create_valid)
  let ?pat = "\<lparr>p_id = fresh_id (map p_id (patients d)), name = n, age = a, gender = g,
          address = ad, created_by = u_id user, created_at = now\<rparr>"
  have "PatientListCreateView_post rng d (Some user) data now =
           (d\<lparr>patients := patients d @ [?pat]\<rparr>,
            Response 201 (PatientSerializer_to_representation (d\<lparr>patients := patients d @ [?pat]\<rparr>) ?pat))"
    by (simp add: PatientListCreateView_post_def PatientListCreateView_post_body_def gate valid
          save dispatch_Inr)
  moreover have "created_by ?pat = u_id user" by simp
  ultimately show ?thesis by blast
qed

lemma post_refused:
  assumes gate: "check_permissions (Some user) (PatientListCreateView_permissions d (Some user)) = Inr ()"
    and valid: "PatientSerializer_is_valid rng data = Inr vd"
    and doc: "\<not> (is_superuser user \<or> has_profile_role d user ''doctor'')"
  shows "PatientListCreateView_post rng d (Some user) data now =
           (d, Response 500 (JObj [(''detail'', JStr ''Only doctors can create patients.''),
                                   (''status_code'', JInt 500)]))"
proof -
  have "PatientListCreateView_perform_create d user vd now =
          (d, Inl (APIException ''Only doctors can create patients.''))"
    using doc by (simp add: PatientListCreateView_perform_create_def)
  then show ?thesis
    by (simp add: PatientListCreateView_post_def PatientListCreateView_post_body_def gate valid
        dispatch_def custom_exception_handler_def
        drf_exception_handler_def isinstance_APIException_def)
qed

lemma post_201_cases:
  assumes "PatientListCreateView_post rng d ru data now = (d', Response 201 body)"
  shows "\<exists>user vd. ru = Some user
          \<and> check_permissions (Some user) (PatientListCreateView_permissions d (Some user)) = Inr ()
          \<and> PatientSerializer_is_valid rng data = Inr vd
          \<and> (is_superuser user \<or> has_profile_role d user ''doctor'')"
proof (cases "check_permissions ru (PatientListCreateView_permissions d ru)")
  case (Inl e)
  with assms show ?thesis
    by (simp add: PatientListCreateView_post_def PatientListCreateView_post_body_def
          dispatch_Inl_not_created)
next
  case (Inr x)
  note gate = this
  show ?thesis
  proof (cases ru)
    case None
    with assms gate show ?thesis
      by (simp add: PatientListCreateView_post_def PatientListCreateView_post_body_def
            dispatch_Inl_not_created)
  next
    case (Some user)
    show ?thesis
    proof (cases "PatientSerializer_is_valid rng data")
      case (Inl errors)
      with assms Some gate show ?thesis
        by (simp add: PatientListCreateView_post_def PatientListCreateView_post_body_def
              dispatch_Inl_not_created)
    next
      case (Inr vd)
      note valid = this
      from gate Some have gate': "check_permissions (Some user) (PatientListCreateView_permissions d (Some user)) = Inr ()"
        by simp
      show ?thesis
      proof (cases "is_superuser user \<or> has_profile_role d user ''doctor''")
        case True
        with Some gate' valid show ?thesis by simp
      next
        case False
        from post_refused [OF gate' valid False, of now] assms Some show ?thesis by simp
      qed
    qed
  qed
qed

lemma post_reads_writable_fields_only:
  assumes "dict_get data' ''name'' = dict_get data ''name''"
    and "dict_get data' ''age'' = dict_get data ''age''"
    and "dict_get data' ''gender'' = dict_get data ''gender''"
    and "dict_get data' ''address'' = dict_get data ''address''"
  shows "PatientListCreateView_post rng d ru data' now = PatientListCreateView_post rng d ru data now"
proof -
  have "PatientSerializer_is_valid rng data' = PatientSerializer_is_valid rng data"
    by (simp only: PatientSerializer_is_valid_fields assms)
  then show ?thesis
    by (simp only: PatientListCreateView_post_def PatientListCreateView_post_body_def)
qed


text \<open>
  C6. Whenever creating a patient succeeds (201), the acting user is authenticated, the
  database gained exactly one patient row, and that row's \<open>created_by\<close> is the acting
  user; the body is the representation of that row. A \<open>created_by\<close> or \<open>creator\<close> value
  put into the request, whatever it is, changes nothing: the same row is stored and the
  same answer is given, since the serializer reads the writable fields only and
  \<open>save(created_by=request.user)\<close> sets the owner.
\<close>

theorem created_by_is_actor:
  assumes "PatientListCreateView_post rng d ru data now = (d', Response 201 body)"
  shows "\<exists>user pat. ru = Some user \<and> patients d' = patients d @ [pat]
           \<and> created_by pat = u_id user
           \<and> body = PatientSerializer_to_representation d' pat
           \<and> PatientListCreateView_post rng d ru (dict_set data ''created_by'' v) now
               = (d', Response 201 body)
           \<and> PatientListCreateView_post rng d ru (dict_set data ''creator'' v) now
               = (d', Response 201 body)"
proof -
  from post_201_cases [OF assms] obtain user vd where
    ru: "ru = Some user"
    and gate: "check_permissions (Some user) (PatientListCreateView_permissions d (Some user)) = Inr ()"
    and valid: "PatientSerializer_is_valid rng data = Inr vd"
    and doc: "is_superuser user \<or> has_profile_role d user ''doctor''"
    by blast
  from post_created [OF gate valid doc, of now] obtain pat where
    post: "PatientListCreateView_post rng d (Some user) data now =
           (d\<lparr>patients := patients d @ [pat]\<rparr>,
            Response 201 (PatientSerializer_to_representation (d\<lparr>patients := patients d @ [pat]\<rparr>) pat))"
    and owner: "created_by pat = u_id user"
    by blast
  from post assms ru have d': "d' = d\<lparr>patients := patients d @ [pat]\<rparr>"
    by simp
  from post assms ru have body: "body = PatientSerializer_to_representation d' pat"
    unfolding d' by simp
  have 1: "PatientListCreateView_post rng d ru (dict_set data ''created_by'' v) now
             = PatientListCreateView_post rng d ru data now"
    by (rule post_reads_writable_fields_only) (simp_all add: dict_get_dict_set)
  have 2: "PatientListCreateView_post rng d ru (dict_set data ''creator'' v) now
             = PatientListCreateView_post rng d ru data now"
    by (rule post_reads_writable_fields_only) (simp_all add: dict_get_dict_set)
  from d' have 3: "patients d' = patients d @ [pat]" by simp
  from ru 3 owner body 1 2 assms show ?thesis by simp
qed

theorem created_by_is_actor_witness:
  "\<exists>d' body pat.
     PatientListCreateView_post int32_range sample_db (Some doctor1)
        (dict_set patient_payload ''created_by'' (JInt 2)) 20 = (d', Response 201 body)
     \<and> patients d' = patients sample_db @ [pat]
     \<and> created_by pat = u_id doctor1
     \<and> PatientListCreateView_post int32_range sample_db (Some doctor1)
          (dict_set (dict_set patient_payload ''created_by'' (JInt 2)) ''created_by'' (JInt 3)) 20
        = (d', Response 201 body)"
proof -
  have gate: "check_permissions (Some doctor1)
                (PatientListCreateView_permissions sample_db (Some doctor1)) = Inr ()"
    by code_simp
  have valid: "PatientSerializer_is_valid int32_range (dict_set patient_payload ''created_by'' (JInt 2)) =
                 Inr patient_payload"
    by code_simp
  have doc: "is_superuser doctor1 \<or> has_profile_role sample_db doctor1 ''doctor''"
    by code_simp
  from post_created [OF gate valid doc, of 20] obtain pat0 where
    post: "PatientListCreateView_post int32_range sample_db (Some doctor1)
             (dict_set patient_payload ''created_by'' (JInt 2)) 20 =
           (sample_db\<lparr>patients := patients sample_db @ [pat0]\<rparr>,
            Response 201 (PatientSerializer_to_representation
                            (sample_db\<lparr>patients := patients sample_db @ [pat0]\<rparr>) pat0))"
    by blast
  from created_by_is_actor [OF post, of "JInt 3"] post show ?thesis
    by blast
qed

text \<open>
  C5, as stated, fails: the user \<open>clerk\<close> is authenticated, has the role \<open>admin\<close>, is
  not a superuser, passes the gate \<open>IsAuthenticated, IsDoctor | IsAdmin\<close> and sends a
  valid patient; \<open>perform_create\<close> refuses, and nothing is stored.
\<close>

theorem admin_role_cannot_create_patient:
  "check_permissions (Some clerk) (PatientListCreateView_permissions sample_db (Some clerk)) = Inr ()
   \<and> PatientSerializer_is_valid int32_range patient_payload = Inr patient_payload
   \<and> PatientListCreateView_post int32_range sample_db (Some clerk) patient_payload 20 =
       (sample_db, Response 500 (JObj [(''detail'', JStr ''Only doctors can create patients.''),
                                       (''status_code'', JInt 500)]))"
  by code_simp

text \<open>
  C5, amended. For an actor who passes the gate (authenticated, and doctor or admin) and
  a request that the serializer accepts (name and address given, without null
  characters, the name of at most 255 characters; a valid gender; an age above 0 and
  within the range of the database's integer column): when the actor is a superuser or
  has the role \<open>doctor\<close>, the patient
  is stored with the actor as \<open>created_by\<close> and the answer is 201 with its
  representation; otherwise (a user with the role \<open>admin\<close> who is not a superuser)
  \<open>perform_create\<close> refuses with the error "Only doctors can create patients.", the
  answer is not 201 and the database is unchanged.
\<close>

theorem create_patient_by_role:
  assumes "check_permissions (Some user) (PatientListCreateView_permissions d (Some user)) = Inr ()"
    and "PatientSerializer_is_valid rng data = Inr vd"
  shows "if is_superuser user \<or> has_profile_role d user ''doctor''
         then \<exists>pat. PatientListCreateView_post rng d (Some user) data now =
                  (d\<lparr>patients := patients d @ [pat]\<rparr>,
                   Response 201 (PatientSerializer_to_representation
                                   (d\<lparr>patients := patients d @ [pat]\<rparr>) pat))
                \<and> created_by pat = u_id user
         else \<exists>st. st \<noteq> 201 \<and> PatientListCreateView_post rng d (Some user) data now =
                  (d, Response st (JObj [(''detail'', JStr ''Only doctors can create patients.''),
                                         (''status_code'', JInt (int st))]))"
proof (cases "is_superuser user \<or> has_profile_role d user ''doctor''")
  case True
  with post_created [OF assms True, of now] show ?thesis by simp
next
  case False
  have "(500::nat) \<noteq> 201 \<and> PatientListCreateView_post rng d (Some user) data now =
          (d, Response 500 (JObj [(''detail'', JStr ''Only doctors can create patients.''),
                                  (''status_code'', JInt (int 500))]))"
    using post_refused [OF assms False, of now] by simp
  then have "\<exists>st. st \<noteq> 201 \<and> PatientListCreateView_post rng d (Some user) data now =
                  (d, Response st (JObj [(''detail'', JStr ''Only doctors can create patients.''),
                                         (''status_code'', JInt (int st))]))"
    by (rule exI)
  with False show ?thesis by simp
qed

theorem create_patient_by_role_witness:
  "(\<exists>pat. PatientListCreateView_post int32_range sample_db (Some doctor1) patient_payload 20 =
            (sample_db\<lparr>patients := patients sample_db @ [pat]\<rparr>,
             Response 201 (PatientSerializer_to_representation
                             (sample_db\<lparr>patients := patients sample_db @ [pat]\<rparr>) pat))
          \<and> created_by pat = u_id doctor1)
   \<and> (\<exists>st. st \<noteq> 201 \<and> PatientListCreateView_post int32_range sample_db (Some clerk) patient_payload 20 =
            (sample_db, Response st (JObj [(''detail'', JStr ''Only doctors can create patients.''),
                                           (''status_code'', JInt (int st))])))"
proof -
  have g1: "check_permissions (Some doctor1)
              (PatientListCreateView_permissions sample_db (Some doctor1)) = Inr ()"
    by code_simp
  have g4: "check_permissions (Some clerk)
              (PatientListCreateView_permissions sample_db (Some clerk)) = Inr ()"
    by code_simp
  have valid: "PatientSerializer_is_valid int32_range patient_payload = Inr patient_payload"
    by code_simp
  have d1: "is_superuser doctor1 \<or> has_profile_role sample_db doctor1 ''doctor''"
    by code_simp
  have d4: "\<not> (is_superuser clerk \<or> has_profile_role sample_db clerk ''doctor'')"
    by code_simp
  from create_patient_by_role [OF g1 valid, of 20] d1
       create_patient_by_role [OF g4 valid, of 20] d4
  show ?thesis by simp
qed

subsection \<open>Users and their profiles\<close>

lemma db_inv_cong: "users d' = users d \<Longrightarrow> profiles d' = profiles d \<Longrightarrow> db_inv d' = db_inv d"
  by (simp add: db_inv_def profile_of_def)

lemma fold_max_ge: "a \<le> fold max xs (a::nat)"
  by (induction xs arbitrary: a) (auto intro: order_trans [OF max.cobounded2])

lemma fold_max_mem: "x \<in> set xs \<Longrightarrow> x \<le> fold max xs (a::nat)"
proof (induction xs arbitrary: a)
  case Nil
  then show ?case by simp
next
  case (Cons y ys)
  show ?case
  proof (cases "x = y")
    case True
    have "y \<le> max y a" by simp
    also have "\<dots> \<le> fold max ys (max y a)" by (rule fold_max_ge)
    finally show ?thesis using True by simp
  next
    case False
    with Cons show ?thesis by simp
  qed
qed

lemma fresh_id_fresh: "fresh_id ids \<notin> set ids"
proof
  assume "fresh_id ids \<in> set ids"
  then have "fresh_id ids \<le> fold max ids 0" by (rule fold_max_mem)
  then show False by (simp add: fresh_id_def)
qed

lemma find_None_iff_all: "(find P xs = None) = (\<forall>x \<in> set xs. \<not> P x)"
  by (induction xs) auto

lemma profile_of_fresh:
  assumes "db_inv d"
  shows "profile_of d (fresh_id (map u_id (users d))) = None"
proof -
  have "\<forall>p \<in> set (profiles d). user_id p \<noteq> fresh_id (map u_id (users d))"
  proof
    fix p assume "p \<in> set (profiles d)"
    with assms have "user_id p \<in> set (map u_id (users d))"
      by (simp add: db_inv_def list_all_iff)
    with fresh_id_fresh [of "map u_id (users d)"] show "user_id p \<noteq> fresh_id (map u_id (users d))"
      by metis
  qed
  then show ?thesis by (simp add: profile_of_def find_None_iff_all)
qed

lemma find_append:
  "find P (xs @ ys) = (case find P xs of None \<Rightarrow> find P ys | Some x \<Rightarrow> Some x)"
  by (induction xs) auto

lemma User_save_new_effect:
  assumes "db_inv d" and "get_user_by_username d un = None"
  shows "User_save_new d un em pw su =
     (d\<lparr>users := users d @ [\<lparr>u_id = fresh_id (map u_id (users d)), username = un, email = em,
                               password = pw, is_superuser = su\<rparr>],
        profiles := profiles d @ [\<lparr>user_id = fresh_id (map u_id (users d)), role = ''doctor''\<rparr>]\<rparr>,
      Inr \<lparr>u_id = fresh_id (map u_id (users d)), username = un, email = em,
          password = pw, is_superuser = su\<rparr>)"
  using profile_of_fresh [OF assms(1)] assms(2)
  by (simp add: User_save_new_def Let_def post_save_User_def create_user_profile_def
        Profile_objects_create_def save_user_profile_def get_profile_def profile_of_def find_append)

lemma User_save_new_duplicate:
  "get_user_by_username d un \<noteq> None \<Longrightarrow> User_save_new d un em pw su = (d, Inl IntegrityError)"
  by (simp add: User_save_new_def)

lemma db_inv_extend:
  assumes "db_inv d"
  shows "db_inv (d\<lparr>users := users d @ [u], profiles := profiles d @ [\<lparr>user_id = u_id u, role = r\<rparr>]\<rparr>)"
  using assms
  by (auto simp: db_inv_def list_all_iff profile_of_def find_None_iff_all)

lemma db_inv_User_save_new:
  assumes "db_inv d" and "User_save_new d un em pw su = (d', r)"
  shows "db_inv d'"
proof (cases "get_user_by_username d un = None")
  case True
  from assms(2) have "d' = fst (User_save_new d un em pw su)" by simp
  also have "\<dots> = d\<lparr>users := users d @ [\<lparr>u_id = fresh_id (map u_id (users d)), username = un, email = em,
                               password = pw, is_superuser = su\<rparr>],
        profiles := profiles d @ [\<lparr>user_id = u_id \<lparr>u_id = fresh_id (map u_id (users d)), username = un, email = em,
                               password = pw, is_superuser = su\<rparr>, role = ''doctor''\<rparr>]\<rparr>"
    by (simp add: User_save_new_effect [OF assms(1) True])
  finally show ?thesis by (simp only: db_inv_extend [OF assms(1)])
next
  case False
  with assms show ?thesis by (simp add: User_save_new_duplicate)
qed

lemma User_save_new_member:
  assumes "db_inv d" and "User_save_new d un em pw su = (d', Inr u)"
  shows "u \<in> set (users d')"
proof (cases "get_user_by_username d un = None")
  case True
  from assms(2) show ?thesis unfolding User_save_new_effect [OF assms(1) True] by auto
next
  case False
  with assms show ?thesis by (simp add: User_save_new_duplicate)
qed

lemma db_inv_Profile_objects_create:
  assumes "db_inv d" and "u \<in> set (users d)" and "Profile_objects_create d (u_id u) r = (d', rp)"
  shows "db_inv d'"
  using assms
  by (auto simp: Profile_objects_create_def db_inv_def list_all_iff profile_of_def
        find_None_iff_all Let_def split: if_splits)

lemma profile_of_Some_iff:
  "(profile_of d uid \<noteq> None) = (uid \<in> set (map user_id (profiles d)))"
  by (force simp: profile_of_def find_None_iff_all)

lemma db_inv_alt:
  "db_inv d = (set (map u_id (users d)) \<subseteq> set (map user_id (profiles d))
               \<and> set (map user_id (profiles d)) \<subseteq> set (map u_id (users d)))"
  unfolding db_inv_def list_all_iff profile_of_Some_iff by auto

lemma db_inv_Profile_set_role:
  assumes "db_inv d"
  shows "db_inv (Profile_set_role d uid r)"
proof -
  have "map user_id (profiles (Profile_set_role d uid r)) = map user_id (profiles d)"
    by (simp add: Profile_set_role_def)
  moreover have "users (Profile_set_role d uid r) = users d"
    by (simp add: Profile_set_role_def)
  ultimately show ?thesis using assms by (simp only: db_inv_alt)
qed

lemma Token_get_or_create_frame:
  "Token_get_or_create d u k = (d', key) \<Longrightarrow> users d' = users d \<and> profiles d' = profiles d"
  by (auto simp: Token_get_or_create_def split: option.splits)

lemma Patient_objects_create_cases:
  "Patient_objects_create d kwargs now = (d, Inl IntegrityError)
   \<or> (\<exists>pat. Patient_objects_create d kwargs now = (d\<lparr>patients := patients d @ [pat]\<rparr>, Inr pat))"
  by (simp add: Patient_objects_create_def Let_def split: option.split jval.split)

lemma Patient_objects_create_frame:
  "Patient_objects_create d kwargs now = (d', r) \<Longrightarrow> users d' = users d \<and> profiles d' = profiles d"
  using Patient_objects_create_cases [of d kwargs now] by auto

lemma MedicalRecord_objects_create_cases:
  "MedicalRecord_objects_create d kwargs now = (d, Inl IntegrityError)
   \<or> (\<exists>r. MedicalRecord_objects_create d kwargs now
            = (d\<lparr>medical_records := medical_records d @ [r]\<rparr>, Inr r))"
  by (simp add: MedicalRecord_objects_create_def Let_def split: option.split jval.split)

lemma MedicalRecord_objects_create_frame:
  "MedicalRecord_objects_create d kwargs now = (d', r)
   \<Longrightarrow> users d' = users d \<and> profiles d' = profiles d"
  using MedicalRecord_objects_create_cases [of d kwargs now] by auto

lemma login_view_frame:
  "login_view repr d data k = (d', out) \<Longrightarrow> users d' = users d \<and> profiles d' = profiles d"
  by (auto simp: login_view_def login_view_body_def post_save_User_def create_user_profile_def
        save_user_profile_def Token_get_or_create_def
      split: option.splits sum.splits prod.splits)

lemma PatientListCreateView_perform_create_frame:
  "PatientListCreateView_perform_create d user vd now = (d1, r)
   \<Longrightarrow> users d1 = users d \<and> profiles d1 = profiles d"
  by (auto simp: PatientListCreateView_perform_create_def PatientSerializer_save_def
      dest: Patient_objects_create_frame split: if_splits)

lemma PatientListCreateView_post_frame:
  assumes "PatientListCreateView_post rng d actor data now = (d', out)"
  shows "users d' = users d \<and> profiles d' = profiles d"
  using assms
  by (auto simp: PatientListCreateView_post_def PatientListCreateView_post_body_def
      split: option.splits sum.splits prod.splits
      dest: PatientListCreateView_perform_create_frame)

lemma MedicalRecordAddView_perform_create_frame:
  "MedicalRecordAddView_perform_create d user data vd now = (d1, r)
   \<Longrightarrow> users d1 = users d \<and> profiles d1 = profiles d"
  unfolding MedicalRecordAddView_perform_create_def
  by (cases "case dict_get data ''patient'' of
              Some (JInt n) \<Rightarrow> (if n < 0 then None else Patient_objects_get d (nat n))
            | _ \<Rightarrow> None")
     (auto dest: MedicalRecord_objects_create_frame split: if_splits)

lemma MedicalRecordAddView_post_frame:
  assumes "MedicalRecordAddView_post d actor data now = (d', out)"
  shows "users d' = users d \<and> profiles d' = profiles d"
  using assms
  by (auto simp: MedicalRecordAddView_post_def MedicalRecordAddView_post_body_def
      split: option.splits sum.splits prod.splits
      dest: MedicalRecordAddView_perform_create_frame)

lemma db_inv_frame:
  "db_inv d \<Longrightarrow> users d' = users d \<and> profiles d' = profiles d \<Longrightarrow> db_inv d'"
  by (simp add: db_inv_def profile_of_def)

lemma db_inv_empty: "db_inv empty_db"
  by (simp add: db_inv_def empty_db_def)

lemma UserRegistrationSerializer_create_inv:
  assumes inv: "db_inv d" and c: "UserRegistrationSerializer_create d vd = (d', r)"
  shows "db_inv d'"
proof -
  consider (early) "d' = d"
    | (created) rv uv ev pv d1 user d2 rp where
        "create_user d (str_of uv) (str_of ev) (str_of pv) = (d1, Inr user)"
        "Profile_objects_create d1 (u_id user) (str_of rv) = (d2, rp)" "d' = d2"
    | (failed) uv ev pv e where
        "create_user d (str_of uv) (str_of ev) (str_of pv) = (d', Inl e)"
    using c
    by (auto simp: UserRegistrationSerializer_create_def split: sum.splits prod.splits)
  then show ?thesis
  proof cases
    case early
    with inv show ?thesis by simp
  next
    case created
    from created(1) have s: "User_save_new d (str_of uv) (str_of ev) (str_of pv) False = (d1, Inr user)"
      by (simp add: create_user_def)
    from db_inv_User_save_new [OF inv s] have i1: "db_inv d1" .
    from User_save_new_member [OF inv s] have m: "user \<in> set (users d1)" .
    from db_inv_Profile_objects_create [OF i1 m created(2)] created(3) show ?thesis by simp
  next
    case failed
    then have "User_save_new d (str_of uv) (str_of ev) (str_of pv) False = (d', Inl e)"
      by (simp add: create_user_def)
    from db_inv_User_save_new [OF inv this] show ?thesis .
  qed
qed

lemma db_inv_signup:
  assumes inv: "db_inv d" and s: "signup d data k = (d', out)"
  shows "db_inv d'"
proof (cases "UserRegistrationSerializer_is_valid d data")
  case (Inl errors)
  with s inv show ?thesis by (simp add: signup_def signup_body_def)
next
  case (Inr vd)
  obtain d1 r where c: "UserRegistrationSerializer_create d vd = (d1, r)"
    by (cases "UserRegistrationSerializer_create d vd")
  from UserRegistrationSerializer_create_inv [OF inv c] have i1: "db_inv d1" .
  show ?thesis
  proof (cases r)
    case (Inl e)
    with s Inr c have "d' = d1"
      by (auto simp: signup_def signup_body_def split: if_splits)
    with i1 show ?thesis by simp
  next
    case (Inr user)
    obtain d2 key where t: "Token_get_or_create d1 user k = (d2, key)"
      by (cases "Token_get_or_create d1 user k")
    from db_inv_frame [OF i1 Token_get_or_create_frame [OF t]] have i2: "db_inv d2" .
    from s \<open>UserRegistrationSerializer_is_valid d data = Inr vd\<close> c Inr t have "d' = d2"
      by (auto simp: signup_def signup_body_def split: sum.splits)
    with i2 show ?thesis by simp
  qed
qed

lemma reachable_db_inv: "reachable d \<Longrightarrow> db_inv d"
proof (induction rule: reachable.induct)
  case start
  show ?case by (rule db_inv_empty)
next
  case (user_saved d un em pw su d' ru)
  then show ?case by (blast intro: db_inv_User_save_new)
next
  case (profile_created d u r d' rp)
  then show ?case by (blast intro: db_inv_Profile_objects_create)
next
  case (role_set d uid r)
  then show ?case by (blast intro: db_inv_Profile_set_role)
next
  case (token_created d u k d' key)
  from db_inv_frame [OF token_created(3) Token_get_or_create_frame [OF token_created(2)]]
  show ?case .
next
  case (patient_created d kwargs now d' rpat)
  from db_inv_frame [OF patient_created(3) Patient_objects_create_frame [OF patient_created(2)]]
  show ?case .
next
  case (record_created d kwargs now d' rrec)
  from db_inv_frame [OF record_created(3) MedicalRecord_objects_create_frame [OF record_created(2)]]
  show ?case .
next
  case (signed_up d data k d' out)
  then show ?case by (blast intro: db_inv_signup)
next
  case (logged_in d repr data k d' out)
  from db_inv_frame [OF logged_in(3) login_view_frame [OF logged_in(2)]]
  show ?case .
next
  case (patient_posted d rng actor data now d' out)
  from db_inv_frame [OF patient_posted(3) PatientListCreateView_post_frame [OF patient_posted(2)]]
  show ?case .
next
  case (record_posted d actor data now d' out)
  from db_inv_frame [OF record_posted(3) MedicalRecordAddView_post_frame [OF record_posted(2)]]
  show ?case .
qed

lemma db_inv_get_profile:
  assumes "db_inv d" and "u \<in> set (users d)"
  shows "\<exists>p. profile_of d (u_id u) = Some p"
  using assms by (auto simp: db_inv_def list_all_iff)

lemma profile_of_new_user:
  assumes "profile_of d uid = None"
  shows "profile_of (d\<lparr>users := us, profiles := profiles d @ [\<lparr>user_id = uid, role = r\<rparr>]\<rparr>) uid
           = Some \<lparr>user_id = uid, role = r\<rparr>"
  using assms by (simp add: profile_of_def find_append)

text \<open>
  C10. In every reachable state, saving a new user with a username not yet taken
  (\<open>create_user\<close>, \<open>create_superuser\<close>, or the signup view, which calls the former)
  succeeds and, through the post-save hook, leaves the new user with a profile whose role
  is \<open>doctor\<close>. Consequently every user of a reachable state has a profile, and for such
  a user as the actor the permission checks that read \<open>user.profile.role\<close> return a
  boolean instead of raising: \<open>IsDoctor\<close>, \<open>IsAdmin\<close>, the request-level check of
  \<open>IsPatientRecordOwnerOrAdmin\<close>, and the object-level check of \<open>IsOwnerOrAdmin\<close> on a
  patient.
\<close>

theorem every_user_has_profile:
  assumes "reachable d"
  shows "(get_user_by_username d un = None \<longrightarrow>
            (\<exists>d' u. User_save_new d un em pw su = (d', Inr u) \<and> u \<in> set (users d')
                 \<and> profile_of d' (u_id u) = Some \<lparr>user_id = u_id u, role = ''doctor''\<rparr>))
       \<and> (\<forall>u \<in> set (users d). \<exists>p. get_profile d u = Inr p
             \<and> IsDoctor_has_permission d (Some u) = Inr (role p = ''doctor'')
             \<and> IsAdmin_has_permission d (Some u) = Inr (is_superuser u \<or> role p = ''admin'')
             \<and> IsPatientRecordOwnerOrAdmin_has_permission d (Some u)
                 = Inr (is_superuser u \<or> role p = ''admin'' \<or> role p = ''doctor'')
             \<and> (\<forall>pat. IsOwnerOrAdmin_has_object_permission d (Some u) (PatientObj pat)
                 = Inr (is_superuser u \<or> role p = ''admin'' \<or> created_by pat = u_id u)))"
proof -
  from assms have inv: "db_inv d" by (rule reachable_db_inv)
  have 1: "\<exists>d' u. User_save_new d un em pw su = (d', Inr u) \<and> u \<in> set (users d')
                 \<and> profile_of d' (u_id u) = Some \<lparr>user_id = u_id u, role = ''doctor''\<rparr>"
    if fresh: "get_user_by_username d un = None"
  proof -
    let ?u = "\<lparr>u_id = fresh_id (map u_id (users d)), username = un, email = em,
               password = pw, is_superuser = su\<rparr>"
    let ?d' = "d\<lparr>users := users d @ [?u],
                 profiles := profiles d @ [\<lparr>user_id = fresh_id (map u_id (users d)), role = ''doctor''\<rparr>]\<rparr>"
    have a: "User_save_new d un em pw su = (?d', Inr ?u)"
      by (rule User_save_new_effect [OF inv fresh])
    have b: "?u \<in> set (users ?d')" by simp
    have c: "profile_of ?d' (u_id ?u) = Some \<lparr>user_id = u_id ?u, role = ''doctor''\<rparr>"
      using profile_of_new_user [OF profile_of_fresh [OF inv]] by simp
    from a b c show ?thesis by blast
  qed
  have 2: "\<exists>p. get_profile d u = Inr p
             \<and> IsDoctor_has_permission d (Some u) = Inr (role p = ''doctor'')
             \<and> IsAdmin_has_permission d (Some u) = Inr (is_superuser u \<or> role p = ''admin'')
             \<and> IsPatientRecordOwnerOrAdmin_has_permission d (Some u)
                 = Inr (is_superuser u \<or> role p = ''admin'' \<or> role p = ''doctor'')
             \<and> (\<forall>pat. IsOwnerOrAdmin_has_object_permission d (Some u) (PatientObj pat)
                 = Inr (is_superuser u \<or> role p = ''admin'' \<or> created_by pat = u_id u))"
    if mem: "u \<in> set (users d)" for u
  proof -
    from db_inv_get_profile [OF inv mem] obtain p where p: "profile_of d (u_id u) = Some p"
      by blast
    then have "get_profile d u = Inr p
             \<and> IsDoctor_has_permission d (Some u) = Inr (role p = ''doctor'')
             \<and> IsAdmin_has_permission d (Some u) = Inr (is_superuser u \<or> role p = ''admin'')
             \<and> IsPatientRecordOwnerOrAdmin_has_permission d (Some u)
                 = Inr (is_superuser u \<or> role p = ''admin'' \<or> role p = ''doctor'')
             \<and> (\<forall>pat. IsOwnerOrAdmin_has_object_permission d (Some u) (PatientObj pat)
                 = Inr (is_superuser u \<or> role p = ''admin'' \<or> created_by pat = u_id u))"
      by (simp add: get_profile_def IsDoctor_has_permission_def IsAdmin_has_permission_def
            IsPatientRecordOwnerOrAdmin_has_permission_def IsOwnerOrAdmin_has_object_permission_def)
    then show ?thesis by blast
  qed
  from 1 2 show ?thesis by blast
qed

theorem every_user_has_profile_witness:
  "reachable (fst (create_user empty_db ''doctor1'' [] ''doc1pass''))
   \<and> users (fst (create_user empty_db ''doctor1'' [] ''doc1pass'')) = [doctor1]
   \<and> IsDoctor_has_permission (fst (create_user empty_db ''doctor1'' [] ''doc1pass'')) (Some doctor1)
       = Inr True
   \<and> (\<exists>d' u. User_save_new (fst (create_user empty_db ''doctor1'' [] ''doc1pass''))
                 ''admin'' [] ''adminpass'' True = (d', Inr u)
         \<and> profile_of d' (u_id u) = Some \<lparr>user_id = u_id u, role = ''doctor''\<rparr>)"
proof -
  let ?d1 = "fst (create_user empty_db ''doctor1'' [] ''doc1pass'')"
  have r: "reachable ?d1"
    by (rule reachable.user_saved [OF reachable.start,
          of "''doctor1''" "[]" "''doc1pass''" False _
             "snd (User_save_new empty_db ''doctor1'' [] ''doc1pass'' False)"])
       (simp add: create_user_def)
  have us: "users ?d1 = [doctor1]" by code_simp
  have m: "doctor1 \<in> set (users ?d1)" by (simp add: us)
  have fresh: "get_user_by_username ?d1 ''admin'' = None" by code_simp
  have rl: "get_profile ?d1 doctor1 = Inr \<lparr>user_id = 1, role = ''doctor''\<rparr>" by code_simp
  from every_user_has_profile [OF r, of "''admin''" "[]" "''adminpass''" True] fresh m rl
  have "IsDoctor_has_permission ?d1 (Some doctor1) = Inr True
      \<and> (\<exists>d' u. User_save_new ?d1 ''admin'' [] ''adminpass'' True = (d', Inr u)
         \<and> profile_of d' (u_id u) = Some \<lparr>user_id = u_id u, role = ''doctor''\<rparr>)"
    by fastforce
  with r us show ?thesis by blast
qed

subsection \<open>The failures of C1 to C4 in general\<close>

text \<open>
  The four evaluations above are instances of general facts: no signup is ever answered
  201, since the profile made by the post-save hook always blocks the serializer's own;
  a doctor who is not a superuser gets an \<open>AttributeError\<close> for the records of every
  existing patient; a user with the role \<open>admin\<close> is refused by the gate of the
  add-record view whatever the request; and a doctor's record for another user's patient
  is a validation error (400) that carries the message under the key \<open>patient\<close>.
\<close>

lemma User_save_new_Inr_profile:
  assumes "User_save_new d un em pw su = (d1, Inr u)"
  shows "profile_of d1 (u_id u) \<noteq> None"
  using assms
  by (auto simp: User_save_new_def Let_def post_save_User_def save_user_profile_def
        get_profile_def split: if_splits prod.splits sum.splits option.splits)

lemma UserRegistrationSerializer_create_never_returns:
  "UserRegistrationSerializer_create d vd \<noteq> (d', Inr user)"
proof
  assume c: "UserRegistrationSerializer_create d vd = (d', Inr user)"
  then obtain rv uv ev pv d1 where
      cu: "create_user d (str_of uv) (str_of ev) (str_of pv) = (d1, Inr user)"
      and pc: "Profile_objects_create d1 (u_id user) (str_of rv) = (d', Inr \<lparr>user_id = u_id user, role = str_of rv\<rparr>)"
    by (auto simp: UserRegistrationSerializer_create_def Profile_objects_create_def Let_def
          split: sum.splits prod.splits if_splits)
  from cu have "profile_of d1 (u_id user) \<noteq> None"
    by (simp add: create_user_def User_save_new_Inr_profile)
  with pc show False by (simp add: Profile_objects_create_def)
qed

lemma signup_never_created: "snd (signup d data k) \<noteq> Response 201 body"
proof (cases "UserRegistrationSerializer_is_valid d data")
  case (Inl errors)
  then show ?thesis by (simp add: signup_def signup_body_def dispatch_def)
next
  case (Inr vd)
  obtain d1 r where c: "UserRegistrationSerializer_create d vd = (d1, r)"
    by (cases "UserRegistrationSerializer_create d vd")
  with UserRegistrationSerializer_create_never_returns [of d vd d1] obtain e where r: "r = Inl e"
    by (cases r) auto
  show ?thesis
    using Inr c r dispatch_Inl_not_created [of e body]
    by (simp add: signup_def signup_body_def dispatch_Inr)
qed

lemma doctor_list_records_always_raises:
  assumes "profile_of d (u_id u) = Some p" and "\<not> is_superuser u" and "role p = ''doctor''"
    and "Patient_objects_get d pk = Some pat"
  shows "PatientMedicalRecordListView_get d (Some u) pk = Raised AttributeError"
  using assms
  by (simp add: PatientMedicalRecordListView_get_def PatientMedicalRecordListView_get_queryset_def
        IsAuthenticated_has_permission_def IsPatientRecordOwnerOrAdmin_has_permission_def
        IsPatientRecordOwnerOrAdmin_has_object_permission_def get_profile_def dispatch_def
        custom_exception_handler_def drf_exception_handler_def)

lemma admin_role_add_record_always_forbidden:
  assumes "profile_of d (u_id u) = Some p" and "role p = ''admin''"
  shows "MedicalRecordAddView_post d (Some u) data now =
     (d, Response 403 (JObj [(''detail'', JStr ''You do not have permission to perform this action.''),
                             (''status_code'', JInt 403)]))"
  using assms
  by (simp add: MedicalRecordAddView_post_def MedicalRecordAddView_post_body_def
        IsAuthenticated_has_permission_def IsDoctor_has_permission_def get_profile_def
        permission_denied_def dispatch_def custom_exception_handler_def drf_exception_handler_def
        isinstance_APIException_def)

lemma field_errors_Fail: "(f, Fail m) \<in> set rs \<Longrightarrow> field_errors rs \<noteq> []"
  using field_errors_Nil by blast

lemma doctor_add_record_foreign_patient_400:
  assumes "profile_of d (u_id u) = Some p" and "\<not> is_superuser u" and "role p = ''doctor''"
    and "dict_get data ''patient'' = Some (JInt (int pk))"
    and "Patient_objects_get d pk = Some pat" and "created_by pat \<noteq> u_id u"
  shows "\<exists>errors. MedicalRecordAddView_post d (Some u) data now =
           (d, Response 400 (JObj (dict_set errors ''status_code'' (JInt 400))))
         \<and> dict_get errors ''patient'' =
             Some (JList [JStr ''You can only add medical records to your own patients.''])"
proof -
  let ?rs = "[(''patient'', Fail [''You can only add medical records to your own patients.'']),
              (''symptoms'', CharField True False None (dict_get data ''symptoms'')),
              (''diagnosis'', CharField True False None (dict_get data ''diagnosis'')),
              (''treatment'', CharField True False None (dict_get data ''treatment''))]"
  have pf: "patient_field d (Some u) (dict_get data ''patient'')
              = Inr (Fail [''You can only add medical records to your own patients.''])"
    using assms
    by (simp add: patient_field_def PrimaryKeyRelatedField_def validate_patient_def get_profile_def)
  have ne: "field_errors ?rs \<noteq> []" by simp
  have v: "MedicalRecordSerializer_is_valid d (Some u) data = Inl (ValidationError (field_errors ?rs))"
    using ne by (simp add: MedicalRecordSerializer_is_valid_def pf to_internal_value_def)
  have gate: "check_permissions (Some u) [IsAuthenticated_has_permission (Some u), IsDoctor_has_permission d (Some u)] = Inr ()"
    using assms by (simp add: IsAuthenticated_has_permission_def IsDoctor_has_permission_def get_profile_def)
  have "MedicalRecordAddView_post d (Some u) data now =
           (d, Response 400 (JObj (dict_set (field_errors ?rs) ''status_code'' (JInt 400))))"
    unfolding MedicalRecordAddView_post_def MedicalRecordAddView_post_body_def gate v
    by (simp add: dispatch_def custom_exception_handler_def drf_exception_handler_def
          isinstance_APIException_def)
  moreover have "dict_get (field_errors ?rs) ''patient'' =
             Some (JList [JStr ''You can only add medical records to your own patients.''])"
    by (simp add: dict_get_def)
  ultimately show ?thesis by blast
qed

subsection \<open>The bounds of the patient serializer\<close>

text \<open>
  An age beyond the range of the database's integer column is a validation error, and a
  request that the serializer refuses is answered 400 with nothing stored: with a 64-bit
  column that is the answer for the age \<open>2^63\<close>.
\<close>

lemma age_beyond_range_is_invalid:
  assumes "dict_get data ''age'' = Some (JInt n)" and "snd rng < n"
  shows "\<exists>errors. PatientSerializer_is_valid rng data = Inl errors"
proof -
  have "with_hook (IntegerField rng (dict_get data ''age'')) validate_age =
          Fail [''Ensure this value is less than or equal to '' @ str_int (snd rng) @ ''.'']"
    using assms by (simp add: IntegerField_def with_hook_def)
  then have "field_errors
       [(''name'', CharField True False (Some 255) (dict_get data ''name'')),
        (''age'', with_hook (IntegerField rng (dict_get data ''age'')) validate_age),
        (''gender'', ChoiceField GENDER_CHOICES (dict_get data ''gender'')),
        (''address'', CharField True False None (dict_get data ''address''))] \<noteq> []"
    by (intro field_errors_Fail [of "''age''"]) simp
  then show ?thesis
    by (simp add: PatientSerializer_is_valid_fields to_internal_value_def)
qed

lemma invalid_patient_is_400:
  assumes "check_permissions (Some user) (PatientListCreateView_permissions d (Some user)) = Inr ()"
    and "PatientSerializer_is_valid rng data = Inl errors"
  shows "PatientListCreateView_post rng d (Some user) data now =
           (d, Response 400 (JObj (dict_set errors ''status_code'' (JInt 400))))"
  by (simp add: PatientListCreateView_post_def PatientListCreateView_post_body_def assms
        dispatch_def custom_exception_handler_def drf_exception_handler_def
        isinstance_APIException_def)

end
